theory Spec2Isabelle
  imports Main "HOL-Library.Word" "HOL-Library.Code_Target_Numeral"
begin

section \<open>Values of the plugin framework\<close>

text \<open>
  A \<open>types.Int64\<close> or \<open>types.String\<close> of the plugin framework is null, unknown or a
  known value; the zero value of the Go struct is null. Go's \<open>==\<close> on two such values
  compares state and value, which is the equality of this datatype.
  Go's \<open>int64\<close> and \<open>uint\<close> (64-bit platform) are \<open>64 word\<close>: \<open>int64\<close> is read with
  \<open>sint\<close>, \<open>uint\<close> with \<open>unat\<close>, and the conversion \<open>int64(u)\<close> keeps the bits.
\<close>

datatype 'a tfval = Null | Unknown | Known 'a

type_synonym int64 = "64 word"
type_synonym uint = "64 word"

definition ValueInt64 :: "int64 tfval \<Rightarrow> int64" where
  "ValueInt64 v = (case v of Known n \<Rightarrow> n | _ \<Rightarrow> 0)"

definition ValueString :: "string tfval \<Rightarrow> string" where
  "ValueString v = (case v of Known s \<Rightarrow> s | _ \<Rightarrow> [])"

definition IsNull :: "'a tfval \<Rightarrow> bool" where
  "IsNull v = (case v of Null \<Rightarrow> True | _ \<Rightarrow> False)"

text \<open>
  Plans, states and configurations are objects: attribute names with values. An object
  is kept as an association list in the order of the struct that is written to it.
\<close>

datatype tfvalue =
    Int64V "int64 tfval"
  | StringV "string tfval"
  | ListV "tfvalue list tfval"
  | ObjectV "(string \<times> tfvalue) list"

type_synonym tfobject = "(string \<times> tfvalue) list"

definition get_Int64 :: "tfobject \<Rightarrow> string \<Rightarrow> int64 tfval option" where
  "get_Int64 obj k = (case map_of obj k of Some (Int64V v) \<Rightarrow> Some v | _ \<Rightarrow> None)"

definition get_String :: "tfobject \<Rightarrow> string \<Rightarrow> string tfval option" where
  "get_String obj k = (case map_of obj k of Some (StringV v) \<Rightarrow> Some v | _ \<Rightarrow> None)"

subsection \<open>Diagnostics\<close>

datatype severity = SeverityError | SeverityWarning

datatype diagnostic = Diagnostic severity string string

primrec HasError :: "diagnostic list \<Rightarrow> bool" where
  "HasError [] = False"
| "HasError (d # ds) = (case d of Diagnostic s _ _ \<Rightarrow> s = SeverityError \<or> HasError ds)"

text \<open>\<open>Diagnostics.Append\<close> skips a diagnostic that the list already contains.\<close>

primrec Append :: "diagnostic list \<Rightarrow> diagnostic list \<Rightarrow> diagnostic list" where
  "Append ds [] = ds"
| "Append ds (n # ns) = Append (if n \<in> set ds then ds else ds @ [n]) ns"

record response =
  Diagnostics :: "diagnostic list"
  State :: "tfobject option"

definition AddError :: "response \<Rightarrow> string \<Rightarrow> string \<Rightarrow> response" where
  "AddError resp summary detail =
     resp\<lparr>Diagnostics := Append (Diagnostics resp) [Diagnostic SeverityError summary detail]\<rparr>"

text \<open>
  Reading an object into a Go struct (\<open>Plan.Get\<close>, \<open>State.Get\<close>, \<open>Config.Get\<close>) requires
  the attribute names of the object and the \<open>tfsdk\<close> tags of the struct to be the same
  set; otherwise it reports an error and leaves the struct at its zero value. The same
  check guards \<open>State.Set\<close>, against the schema of the state that is written.
\<close>

definition struct_mismatch :: "string list \<Rightarrow> tfobject \<Rightarrow> bool" where
  "struct_mismatch tags obj = (set (map fst obj) \<noteq> set tags)"

definition mismatch_error :: diagnostic where
  "mismatch_error = Diagnostic SeverityError ''Value Conversion Error''
     ''mismatch between struct and object''"

definition conversion_error :: diagnostic where
  "conversion_error = Diagnostic SeverityError ''Value Conversion Error''
     ''cannot reflect the attribute into the field type''"

definition State_Set :: "string list \<Rightarrow> response \<Rightarrow> tfobject \<Rightarrow> response" where
  "State_Set schema_attrs resp obj =
     (if struct_mismatch schema_attrs obj
      then resp\<lparr>Diagnostics := Append (Diagnostics resp) [mismatch_error]\<rparr>
      else resp\<lparr>State := Some obj\<rparr>)"

section \<open>JSON bodies and \<open>json.Unmarshal\<close>\<close>

text \<open>
  A body that is valid JSON text is its syntax tree; object members keep their order
  and their duplicates. A number literal is its sign, the value of its integer part and
  the text of its fraction and exponent (empty for an integer literal).
\<close>

datatype json =
    JNull
  | JBool bool
  | JNum bool nat string
  | JStr string
  | JArr "json list"
  | JObj "(string \<times> json) list"

text \<open>
  \<open>json.Unmarshal\<close> matches an object key with a struct field when the two names are
  equal after case folding. Folding maps ASCII letters to upper case and the two
  non-ASCII runes that fold to an ASCII letter, U+017F and U+212A (in UTF-8), to \<open>S\<close>
  and \<open>K\<close>.
\<close>

fun foldName :: "string \<Rightarrow> string" where
  "foldName [] = []"
| "foldName (c # cs) =
     (if (97::nat) \<le> of_char c \<and> of_char c \<le> (122::nat) then char_of (of_char c - (32::nat)) # foldName cs
      else if c = CHR 0xC5 \<and> take 1 cs = [CHR 0xBF] then CHR ''S'' # foldName (drop 1 cs)
      else if c = CHR 0xE2 \<and> take 2 cs = [CHR 0x84, CHR 0xAA] then CHR ''K'' # foldName (drop 2 cs)
      else c # foldName cs)"

definition matchField :: "string \<Rightarrow> string \<Rightarrow> bool" where
  "matchField key name = (foldName key = foldName name)"

text \<open>
  Storing a JSON value into a field: a value of the right kind is stored; \<open>null\<close> leaves
  a string, number or bool field as it is, without error; any other value leaves the
  field as it is and records an \<open>UnmarshalTypeError\<close> (the \<open>True\<close> of the result), after
  which decoding goes on. A number is stored into an \<open>int64\<close> or a \<open>uint\<close> when the
  literal is an integer in the range of the type (\<open>-0\<close> is not accepted for \<open>uint\<close>).
\<close>

definition store_string :: "json \<Rightarrow> string \<Rightarrow> string \<times> bool" where
  "store_string j cur = (case j of JStr s \<Rightarrow> (s, False) | JNull \<Rightarrow> (cur, False) | _ \<Rightarrow> (cur, True))"

definition store_bool :: "json \<Rightarrow> bool \<Rightarrow> bool \<times> bool" where
  "store_bool j cur = (case j of JBool b \<Rightarrow> (b, False) | JNull \<Rightarrow> (cur, False) | _ \<Rightarrow> (cur, True))"

definition store_int64 :: "json \<Rightarrow> int64 \<Rightarrow> int64 \<times> bool" where
  "store_int64 j cur =
     (case j of
        JNum neg n rest \<Rightarrow>
          (if rest = [] \<and> (if neg then n \<le> 2 ^ 63 else n < 2 ^ 63)
           then (if neg then - word_of_nat n else word_of_nat n, False)
           else (cur, True))
      | JNull \<Rightarrow> (cur, False)
      | _ \<Rightarrow> (cur, True))"

definition store_uint :: "json \<Rightarrow> uint \<Rightarrow> uint \<times> bool" where
  "store_uint j cur =
     (case j of
        JNum neg n rest \<Rightarrow>
          (if rest = [] \<and> \<not> neg \<and> n < 2 ^ 64 then (word_of_nat n, False) else (cur, True))
      | JNull \<Rightarrow> (cur, False)
      | _ \<Rightarrow> (cur, True))"

text \<open>
  An object is decoded into a struct member by member, in order; a later duplicate
  overwrites an earlier one; a key that matches no field is skipped. \<open>null\<close> leaves the
  struct as it is; any other value is a type error that leaves it as it is.
\<close>

fun decode_members :: "(string \<Rightarrow> json \<Rightarrow> 's \<Rightarrow> 's \<times> bool) \<Rightarrow> (string \<times> json) list \<Rightarrow> 's \<Rightarrow> 's \<times> bool" where
  "decode_members f [] s = (s, False)"
| "decode_members f ((k, v) # kvs) s =
     (case f k v s of (s1, e1) \<Rightarrow>
        (case decode_members f kvs s1 of (s2, e2) \<Rightarrow> (s2, e1 \<or> e2)))"

definition decode_struct :: "(string \<Rightarrow> json \<Rightarrow> 's \<Rightarrow> 's \<times> bool) \<Rightarrow> json \<Rightarrow> 's \<Rightarrow> 's \<times> bool" where
  "decode_struct f j s =
     (case j of JObj kvs \<Rightarrow> decode_members f kvs s | JNull \<Rightarrow> (s, False) | _ \<Rightarrow> (s, True))"

text \<open>
  An array is decoded into a slice element by element, each into a zero struct. \<open>null\<close>
  makes the slice nil (no elements); any other value is a type error that leaves the
  slice as it is.
\<close>

definition decode_slice :: "(string \<Rightarrow> json \<Rightarrow> 's \<Rightarrow> 's \<times> bool) \<Rightarrow> 's \<Rightarrow> json \<Rightarrow> 's list \<Rightarrow> 's list \<times> bool" where
  "decode_slice f zero j cur =
     (case j of
        JArr js \<Rightarrow> (map (\<lambda>e. fst (decode_struct f e zero)) js,
                    list_ex (\<lambda>e. snd (decode_struct f e zero)) js)
      | JNull \<Rightarrow> ([], False)
      | _ \<Rightarrow> (cur, True))"

text \<open>
  \<open>json.Unmarshal(respBody, &target)\<close>: the body is \<open>None\<close> when the bytes are not valid
  JSON text; then the target is left untouched and an error is returned. The result is
  the target after the call and whether the call returned an error.
\<close>

definition Unmarshal :: "json option \<Rightarrow> (json \<Rightarrow> 't \<Rightarrow> 't \<times> bool) \<Rightarrow> 't \<Rightarrow> 't \<times> bool" where
  "Unmarshal respBody dec target = (case respBody of None \<Rightarrow> (target, True) | Some j \<Rightarrow> dec j target)"

section \<open>HTTP\<close>

record url =
  Scheme :: string
  Host :: string
  Path :: string

record http_request =
  Method :: string
  URL :: url
  Header :: "(string \<times> string) list"
  ReqBody :: "json option"

text \<open>
  The \<open>Body\<close> of a response is the result of \<open>io.ReadAll(httpResp.Body)\<close>: an error, or
  the bytes, seen as JSON text.
\<close>

record http_response =
  StatusCode :: int
  Status :: string
  Body :: "string + json option"

text \<open>
  What the code calls in \<open>net/http\<close>: \<open>NewRequestErr\<close> is the error, if any, with which
  \<open>http.NewRequest\<close> rejects the URL, and \<open>Do\<close> is \<open>clientHttp.Do\<close>, the remote service as
  this call sees it (an error when no response is received).
\<close>

record net_http =
  NewRequestErr :: "url \<Rightarrow> string option"
  Do :: "http_request \<Rightarrow> string + http_response"

definition NewRequest :: "net_http \<Rightarrow> string \<Rightarrow> url \<Rightarrow> json option \<Rightarrow> string + http_request" where
  "NewRequest net m u body =
     (case NewRequestErr net u of
        Some err \<Rightarrow> Inl err
      | None \<Rightarrow> Inr \<lparr>Method = m, URL = u, Header = [], ReqBody = body\<rparr>)"

definition Header_Add :: "http_request \<Rightarrow> string \<Rightarrow> string \<Rightarrow> http_request" where
  "Header_Add req k v = req\<lparr>Header := Header req @ [(k, v)]\<rparr>"

text \<open>The fields \<open>host\<close> and \<open>accessKey\<close> of a resource or data source after \<open>Configure\<close>.\<close>

record client =
  host :: string
  accessKey :: string

text \<open>\<open>%d\<close> of an \<open>int64\<close>.\<close>

fun decimal :: "nat \<Rightarrow> string" where
  "decimal n = (if n < 10 then [char_of (48 + n)] else decimal (n div 10) @ [char_of (48 + n mod 10)])"

definition FormatInt :: "int64 \<Rightarrow> string" where
  "FormatInt w = (if sint w < 0 then CHR ''-'' # decimal (nat (- sint w)) else decimal (nat (sint w)))"

text \<open>
  \<open>json.Marshal\<close> of an \<open>int64\<close> field, and of a string field (the strings of the
  framework are valid UTF-8, which is kept as it is).
\<close>

definition Marshal_int64 :: "int64 \<Rightarrow> json" where
  "Marshal_int64 w = JNum (sint w < 0) (nat \<bar>sint w\<bar>) []"

section \<open>The zone resource\<close>

record ZoneResourceModel =
  ZoneName :: "string tfval"
  Id :: "int64 tfval"
  ZoneType :: "string tfval"
  Token :: "string tfval"

definition ZoneResourceModel_tags :: "string list" where
  "ZoneResourceModel_tags = [''zone_name'', ''id'', ''zone_type'', ''token'']"

text \<open>The attributes of the schema of \<open>PanopZoneResource\<close>.\<close>

definition zone_schema :: "string list" where
  "zone_schema = [''id'', ''zone_name'', ''zone_type'', ''token'']"

definition ZoneResourceModel_zero :: ZoneResourceModel where
  "ZoneResourceModel_zero = \<lparr>ZoneName = Null, Id = Null, ZoneType = Null, Token = Null\<rparr>"

definition get_ZoneResourceModel :: "tfobject \<Rightarrow> diagnostic list \<times> ZoneResourceModel" where
  "get_ZoneResourceModel obj =
     (if struct_mismatch ZoneResourceModel_tags obj then ([mismatch_error], ZoneResourceModel_zero)
      else case (get_String obj ''zone_name'', get_Int64 obj ''id'',
                 get_String obj ''zone_type'', get_String obj ''token'') of
             (Some n, Some i, Some t, Some k) \<Rightarrow>
               ([], \<lparr>ZoneName = n, Id = i, ZoneType = t, Token = k\<rparr>)
           | _ \<Rightarrow> ([conversion_error], ZoneResourceModel_zero))"

definition object_ZoneResourceModel :: "ZoneResourceModel \<Rightarrow> tfobject" where
  "object_ZoneResourceModel d =
     [(''zone_name'', StringV (ZoneResourceModel.ZoneName d)),
      (''id'', Int64V (ZoneResourceModel.Id d)),
      (''zone_type'', StringV (ZoneResourceModel.ZoneType d)),
      (''token'', StringV (ZoneResourceModel.Token d))]"

text \<open>The struct \<open>ZoneInput\<close> of \<open>Create\<close> and its \<open>json.Marshal\<close>.\<close>

record ZoneInput =
  ZoneName :: string
  TenantId :: int64

definition Marshal_ZoneInput :: "ZoneInput \<Rightarrow> json" where
  "Marshal_ZoneInput z =
     JObj [(''zone_name'', JStr (ZoneInput.ZoneName z)),
           (''tenant_id'', Marshal_int64 (ZoneInput.TenantId z))]"

text \<open>The struct \<open>ZoneResponse\<close> declared in \<open>Create\<close>.\<close>

record ZoneResponse_Create =
  ZoneId :: uint
  ZoneName :: string
  ZoneType :: string
  Validated :: bool
  Token :: string

definition ZoneResponse_Create_zero :: ZoneResponse_Create where
  "ZoneResponse_Create_zero = \<lparr>ZoneId = 0, ZoneName = [], ZoneType = [], Validated = False, Token = []\<rparr>"

definition member_ZoneResponse_Create :: "string \<Rightarrow> json \<Rightarrow> ZoneResponse_Create \<Rightarrow> ZoneResponse_Create \<times> bool" where
  "member_ZoneResponse_Create k v z =
     (if matchField k ''zone_id'' then
        (case store_uint v (ZoneResponse_Create.ZoneId z) of (x, e) \<Rightarrow> (z\<lparr>ZoneResponse_Create.ZoneId := x\<rparr>, e))
      else if matchField k ''zone_name'' then
        (case store_string v (ZoneResponse_Create.ZoneName z) of (x, e) \<Rightarrow> (z\<lparr>ZoneResponse_Create.ZoneName := x\<rparr>, e))
      else if matchField k ''zone_type'' then
        (case store_string v (ZoneResponse_Create.ZoneType z) of (x, e) \<Rightarrow> (z\<lparr>ZoneResponse_Create.ZoneType := x\<rparr>, e))
      else if matchField k ''validated'' then
        (case store_bool v (ZoneResponse_Create.Validated z) of (x, e) \<Rightarrow> (z\<lparr>ZoneResponse_Create.Validated := x\<rparr>, e))
      else if matchField k ''token'' then
        (case store_string v (ZoneResponse_Create.Token z) of (x, e) \<Rightarrow> (z\<lparr>ZoneResponse_Create.Token := x\<rparr>, e))
      else (z, False))"

text \<open>The struct \<open>ZoneResponse\<close> declared in \<open>Read\<close>.\<close>

record ZoneResponse_Read =
  Id :: int64
  ZoneName :: string
  ZoneType :: string
  Validated :: bool
  Token :: string
  TenantId :: uint

definition ZoneResponse_Read_zero :: ZoneResponse_Read where
  "ZoneResponse_Read_zero =
     \<lparr>Id = 0, ZoneName = [], ZoneType = [], Validated = False, Token = [], TenantId = 0\<rparr>"

definition member_ZoneResponse_Read :: "string \<Rightarrow> json \<Rightarrow> ZoneResponse_Read \<Rightarrow> ZoneResponse_Read \<times> bool" where
  "member_ZoneResponse_Read k v z =
     (if matchField k ''id'' then
        (case store_int64 v (ZoneResponse_Read.Id z) of (x, e) \<Rightarrow> (z\<lparr>ZoneResponse_Read.Id := x\<rparr>, e))
      else if matchField k ''zone_name'' then
        (case store_string v (ZoneResponse_Read.ZoneName z) of (x, e) \<Rightarrow> (z\<lparr>ZoneResponse_Read.ZoneName := x\<rparr>, e))
      else if matchField k ''zone_type'' then
        (case store_string v (ZoneResponse_Read.ZoneType z) of (x, e) \<Rightarrow> (z\<lparr>ZoneResponse_Read.ZoneType := x\<rparr>, e))
      else if matchField k ''validated'' then
        (case store_bool v (ZoneResponse_Read.Validated z) of (x, e) \<Rightarrow> (z\<lparr>ZoneResponse_Read.Validated := x\<rparr>, e))
      else if matchField k ''token'' then
        (case store_string v (ZoneResponse_Read.Token z) of (x, e) \<Rightarrow> (z\<lparr>ZoneResponse_Read.Token := x\<rparr>, e))
      else if matchField k ''tenant_id'' then
        (case store_uint v (ZoneResponse_Read.TenantId z) of (x, e) \<Rightarrow> (z\<lparr>ZoneResponse_Read.TenantId := x\<rparr>, e))
      else (z, False))"

text \<open>
  Every operation takes the response that the framework hands in and returns it
  updated, together with the requests it passed to \<open>clientHttp.Do\<close>, in order.
\<close>

definition PanopZoneResource_Create ::
  "net_http \<Rightarrow> client \<Rightarrow> tfobject \<Rightarrow> response \<Rightarrow> response \<times> http_request list" where
  "PanopZoneResource_Create net r plan resp0 =
     (case get_ZoneResourceModel plan of (ds, data) \<Rightarrow>
      let resp = resp0\<lparr>Diagnostics := Append (Diagnostics resp0) ds\<rparr> in
      if HasError (Diagnostics resp) then (resp, [])
      else
        let urlSvc = \<lparr>Scheme = ''https'', Host = host r, Path = ''/api/zones''\<rparr>;
            zoneInput = \<lparr>ZoneInput.ZoneName = ValueString (ZoneResourceModel.ZoneName data),
                         ZoneInput.TenantId = 0\<rparr>;
            body = Marshal_ZoneInput zoneInput
        in case NewRequest net ''POST'' urlSvc (Some body) of
             Inl err \<Rightarrow>
               (AddError resp ''JSON Marshal Error''
                  (''Unable to marshal zoneInput to JSON, got error: '' @ err), [])
           | Inr httpReq0 \<Rightarrow>
               let httpReq = Header_Add (Header_Add httpReq0 ''Authorization'' (''Bearer '' @ accessKey r))
                               ''Content-Type'' ''application/json''
               in case Do net httpReq of
                    Inl err \<Rightarrow>
                      (AddError resp ''Client Error''
                         (''Unable to create example, got error: '' @ err), [httpReq])
                  | Inr httpResp \<Rightarrow>
                      (case Body httpResp of
                         Inl err \<Rightarrow>
                           (AddError resp ''Client Error''
                              (''Unable to create zone, got error: '' @ err), [httpReq])
                       | Inr respBody \<Rightarrow>
                           if StatusCode httpResp \<noteq> 201 then
                             (AddError resp ''Client Error''
                                ''Unable to create zone, got error, check your configuration'', [httpReq])
                           else
                             let zone = fst (Unmarshal respBody
                                           (decode_struct member_ZoneResponse_Create) ZoneResponse_Create_zero);
                                 data1 = data\<lparr>ZoneResourceModel.Token := Known (ZoneResponse_Create.Token zone)\<rparr>;
                                 data2 = data1\<lparr>ZoneResourceModel.Id := Known (ZoneResponse_Create.ZoneId zone)\<rparr>
                             in (State_Set zone_schema resp (object_ZoneResourceModel data2), [httpReq])))"

text \<open>The loop of \<open>Read\<close>: the first entry with the held id overwrites three fields.\<close>

fun zone_scan :: "ZoneResponse_Read list \<Rightarrow> ZoneResourceModel \<Rightarrow> ZoneResourceModel" where
  "zone_scan [] data = data"
| "zone_scan (zone # zones) data =
     (if ZoneResponse_Read.Id zone = ValueInt64 (ZoneResourceModel.Id data)
      then data\<lparr>ZoneResourceModel.ZoneName := Known (ZoneResponse_Read.ZoneName zone),
                ZoneResourceModel.Token := Known (ZoneResponse_Read.Token zone),
                ZoneResourceModel.ZoneType := Known (ZoneResponse_Read.ZoneType zone)\<rparr>
      else zone_scan zones data)"

definition PanopZoneResource_Read ::
  "net_http \<Rightarrow> client \<Rightarrow> tfobject \<Rightarrow> response \<Rightarrow> response \<times> http_request list" where
  "PanopZoneResource_Read net r state resp0 =
     (case get_ZoneResourceModel state of (ds, data) \<Rightarrow>
      let resp = resp0\<lparr>Diagnostics := Append (Diagnostics resp0) ds\<rparr> in
      if HasError (Diagnostics resp) then (resp, [])
      else
        let urlSvc = \<lparr>Scheme = ''https'', Host = host r, Path = ''/api/zones''\<rparr>
        in case NewRequest net ''GET'' urlSvc None of
             Inl err \<Rightarrow> (AddError resp ''HTTP request creation error'' err, [])
           | Inr httpReq0 \<Rightarrow>
               let httpReq = Header_Add (Header_Add httpReq0 ''Authorization'' (''Bearer '' @ accessKey r))
                               ''Content-Type'' ''application/json''
               in case Do net httpReq of
                    Inl err \<Rightarrow> (AddError resp ''HTTP request error'' err, [httpReq])
                  | Inr httpResp \<Rightarrow>
                      (case Body httpResp of
                         Inl err \<Rightarrow>
                           (AddError resp ''Client Error''
                              (''Unable to create zonne, got error: '' @ err), [httpReq])
                       | Inr respBody \<Rightarrow>
                           if StatusCode httpResp \<noteq> 200 then
                             (AddError resp ''Client Error''
                                (''Unable to create zone, got error: '' @ Status httpResp), [httpReq])
                           else
                             let zones = fst (Unmarshal respBody
                                            (decode_slice member_ZoneResponse_Read ZoneResponse_Read_zero) [])
                             in (State_Set zone_schema resp
                                   (object_ZoneResourceModel (zone_scan zones data)), [httpReq])))"

definition PanopZoneResource_Update :: "tfobject \<Rightarrow> response \<Rightarrow> response \<times> http_request list" where
  "PanopZoneResource_Update plan resp0 =
     (case get_ZoneResourceModel plan of (ds, data) \<Rightarrow>
      let resp = resp0\<lparr>Diagnostics := Append (Diagnostics resp0) ds\<rparr> in
      if HasError (Diagnostics resp) then (resp, [])
      else (State_Set zone_schema resp (object_ZoneResourceModel data), []))"

text \<open>
  \<open>Delete\<close> does not test the diagnostics of \<open>State.Get\<close> before the call. In the message
  of the status test, \<open>err\<close> is nil, which \<open>%s\<close> prints as \<open>%!s(<nil>)\<close>.
\<close>

definition PanopZoneResource_Delete ::
  "net_http \<Rightarrow> client \<Rightarrow> tfobject \<Rightarrow> response \<Rightarrow> response \<times> http_request list" where
  "PanopZoneResource_Delete net r state resp0 =
     (case get_ZoneResourceModel state of (ds, data) \<Rightarrow>
      let resp = resp0\<lparr>Diagnostics := Append (Diagnostics resp0) ds\<rparr>;
          urlSvc = \<lparr>Scheme = ''https'', Host = host r,
                    Path = ''/api/zones/'' @ FormatInt (ValueInt64 (ZoneResourceModel.Id data))\<rparr>
      in case NewRequest net ''DELETE'' urlSvc None of
           Inl err \<Rightarrow> (AddError resp ''HTTP request creation error'' err, [])
         | Inr httpReq0 \<Rightarrow>
             let httpReq = Header_Add httpReq0 ''Authorization'' (''Bearer '' @ accessKey r)
             in case Do net httpReq of
                  Inl err \<Rightarrow> (AddError resp ''HTTP request error'' err, [httpReq])
                | Inr httpResp \<Rightarrow>
                    if StatusCode httpResp \<noteq> 200 then
                      (AddError resp ''Client Error'' ''Unable to send deletion: %!s(<nil>)'', [httpReq])
                    else (resp, [httpReq]))"

subsection \<open>\<open>strconv.ParseInt\<close> and \<open>ImportState\<close>\<close>

text \<open>
  \<open>strconv.ParseUint(s, 10, 64)\<close> reads the bytes from the left: a byte that is not a
  decimal digit ends the call with the value 0 and a syntax error; a digit that makes
  the value leave the range ends it with the largest value and a range error, whatever
  follows. \<open>strconv.ParseInt(s, 10, 64)\<close> takes one leading sign, returns 0 on a syntax
  error and the nearest bound of \<open>int64\<close> on a range error.
\<close>

datatype NumError = ErrSyntax | ErrRange

fun ParseUint_loop :: "string \<Rightarrow> nat \<Rightarrow> nat \<times> NumError option" where
  "ParseUint_loop [] n = (n, None)"
| "ParseUint_loop (c # cs) n =
     (if (48::nat) \<le> of_char c \<and> of_char c \<le> (57::nat) then
        (if n \<ge> (2 ^ 64 - 1) div 10 + 1 then (2 ^ 64 - 1, Some ErrRange)
         else let n1 = n * 10 + (of_char c - 48)
              in if n1 > 2 ^ 64 - 1 then (2 ^ 64 - 1, Some ErrRange) else ParseUint_loop cs n1)
      else (0, Some ErrSyntax))"

definition ParseUint :: "string \<Rightarrow> nat \<times> NumError option" where
  "ParseUint s = (if s = [] then (0, Some ErrSyntax) else ParseUint_loop s 0)"

definition ParseInt :: "string \<Rightarrow> int64 \<times> NumError option" where
  "ParseInt s0 =
     (case s0 of
        [] \<Rightarrow> (0, Some ErrSyntax)
      | c # cs \<Rightarrow>
          let neg = (c = CHR ''-'');
              s = (if c = CHR ''+'' \<or> c = CHR ''-'' then cs else s0)
          in case ParseUint s of (un, err) \<Rightarrow>
               if err = Some ErrSyntax then (0, err)
               else if \<not> neg \<and> un \<ge> 2 ^ 63 then (word_of_nat (2 ^ 63 - 1), Some ErrRange)
               else if neg \<and> un > 2 ^ 63 then (- word_of_nat (2 ^ 63), Some ErrRange)
               else (if neg then - word_of_nat un else word_of_nat un, None))"

text \<open>
  \<open>State.SetAttribute(ctx, path.Root("id"), id)\<close>: the attribute \<open>id\<close> of the state
  becomes the known value. On the null state that the framework hands to \<open>ImportState\<close>
  the other attributes of the schema are created null (\<open>null_obj\<close>).
\<close>

definition SetAttribute_id :: "tfobject \<Rightarrow> response \<Rightarrow> int64 \<Rightarrow> response" where
  "SetAttribute_id null_obj resp v =
     (let obj = (case State resp of None \<Rightarrow> null_obj | Some ob \<Rightarrow> ob)
      in resp\<lparr>State := Some (map (\<lambda>(a, x). if a = ''id'' then (a, Int64V (Known v)) else (a, x)) obj)\<rparr>)"

definition PanopZoneResource_ImportState :: "string \<Rightarrow> response \<Rightarrow> response \<times> http_request list" where
  "PanopZoneResource_ImportState req_ID resp =
     (let ident = fst (ParseInt req_ID)
      in (SetAttribute_id (object_ZoneResourceModel ZoneResourceModel_zero) resp ident, []))"

section \<open>The asset resource\<close>

record AssetResourceModel =
  AssetName :: "string tfval"
  Id :: "int64 tfval"
  ZoneId :: "int64 tfval"

definition AssetResourceModel_tags :: "string list" where
  "AssetResourceModel_tags = [''asset_name'', ''id'', ''zone_id'']"

text \<open>The attributes of the schema of \<open>PanopAssetResource\<close>.\<close>

definition asset_schema :: "string list" where
  "asset_schema = [''asset_name'', ''id'', ''zone_id'']"

definition AssetResourceModel_zero :: AssetResourceModel where
  "AssetResourceModel_zero = \<lparr>AssetName = Null, Id = Null, ZoneId = Null\<rparr>"

definition get_AssetResourceModel :: "tfobject \<Rightarrow> diagnostic list \<times> AssetResourceModel" where
  "get_AssetResourceModel obj =
     (if struct_mismatch AssetResourceModel_tags obj then ([mismatch_error], AssetResourceModel_zero)
      else case (get_String obj ''asset_name'', get_Int64 obj ''id'', get_Int64 obj ''zone_id'') of
             (Some n, Some i, Some z) \<Rightarrow> ([], \<lparr>AssetName = n, Id = i, ZoneId = z\<rparr>)
           | _ \<Rightarrow> ([conversion_error], AssetResourceModel_zero))"

definition object_AssetResourceModel :: "AssetResourceModel \<Rightarrow> tfobject" where
  "object_AssetResourceModel d =
     [(''asset_name'', StringV (AssetResourceModel.AssetName d)),
      (''id'', Int64V (AssetResourceModel.Id d)),
      (''zone_id'', Int64V (AssetResourceModel.ZoneId d))]"

text \<open>The struct \<open>AssetInput\<close> of \<open>Create\<close> and its \<open>json.Marshal\<close>.\<close>

record AssetInput =
  AssetName :: string
  ZoneId :: int64

definition Marshal_AssetInput :: "AssetInput \<Rightarrow> json" where
  "Marshal_AssetInput a =
     JObj [(''asset_name'', JStr (AssetInput.AssetName a)),
           (''zone_id'', Marshal_int64 (AssetInput.ZoneId a))]"

text \<open>The struct \<open>AssetResponse\<close> declared in \<open>Create\<close>.\<close>

record AssetResponse_Create =
  AssetId :: uint
  AssetName :: string

definition AssetResponse_Create_zero :: AssetResponse_Create where
  "AssetResponse_Create_zero = \<lparr>AssetId = 0, AssetName = []\<rparr>"

definition member_AssetResponse_Create :: "string \<Rightarrow> json \<Rightarrow> AssetResponse_Create \<Rightarrow> AssetResponse_Create \<times> bool" where
  "member_AssetResponse_Create k v a =
     (if matchField k ''asset_id'' then
        (case store_uint v (AssetResponse_Create.AssetId a) of (x, e) \<Rightarrow> (a\<lparr>AssetResponse_Create.AssetId := x\<rparr>, e))
      else if matchField k ''asset_name'' then
        (case store_string v (AssetResponse_Create.AssetName a) of (x, e) \<Rightarrow> (a\<lparr>AssetResponse_Create.AssetName := x\<rparr>, e))
      else (a, False))"

text \<open>
  The struct \<open>AssetResponse\<close> declared in \<open>PanopAssetResource.Read\<close>, and again, with the
  same fields and tags, in \<open>PanopAssetDataSource.Read\<close>.
\<close>

record AssetResponse_Read =
  AssetId :: int64
  AssetName :: string
  ZoneId :: int64

definition AssetResponse_Read_zero :: AssetResponse_Read where
  "AssetResponse_Read_zero = \<lparr>AssetId = 0, AssetName = [], ZoneId = 0\<rparr>"

definition member_AssetResponse_Read :: "string \<Rightarrow> json \<Rightarrow> AssetResponse_Read \<Rightarrow> AssetResponse_Read \<times> bool" where
  "member_AssetResponse_Read k v a =
     (if matchField k ''id'' then
        (case store_int64 v (AssetResponse_Read.AssetId a) of (x, e) \<Rightarrow> (a\<lparr>AssetResponse_Read.AssetId := x\<rparr>, e))
      else if matchField k ''asset_name'' then
        (case store_string v (AssetResponse_Read.AssetName a) of (x, e) \<Rightarrow> (a\<lparr>AssetResponse_Read.AssetName := x\<rparr>, e))
      else if matchField k ''zone_id'' then
        (case store_int64 v (AssetResponse_Read.ZoneId a) of (x, e) \<Rightarrow> (a\<lparr>AssetResponse_Read.ZoneId := x\<rparr>, e))
      else (a, False))"

definition PanopAssetResource_Create ::
  "net_http \<Rightarrow> client \<Rightarrow> tfobject \<Rightarrow> response \<Rightarrow> response \<times> http_request list" where
  "PanopAssetResource_Create net r plan resp0 =
     (case get_AssetResourceModel plan of (ds, data) \<Rightarrow>
      let resp = resp0\<lparr>Diagnostics := Append (Diagnostics resp0) ds\<rparr> in
      if HasError (Diagnostics resp) then (resp, [])
      else
        let urlSvc = \<lparr>Scheme = ''https'', Host = host r, Path = ''/api/assets''\<rparr>;
            assetInput = \<lparr>AssetInput.AssetName = ValueString (AssetResourceModel.AssetName data),
                          AssetInput.ZoneId = ValueInt64 (AssetResourceModel.ZoneId data)\<rparr>;
            body = Marshal_AssetInput assetInput
        in case NewRequest net ''POST'' urlSvc (Some body) of
             Inl err \<Rightarrow>
               (AddError resp ''JSON Marshal Error''
                  (''Unable to marshal assetInput to JSON, got error: '' @ err), [])
           | Inr httpReq0 \<Rightarrow>
               let httpReq = Header_Add (Header_Add httpReq0 ''Authorization'' (''Bearer '' @ accessKey r))
                               ''Content-Type'' ''application/json''
               in case Do net httpReq of
                    Inl err \<Rightarrow>
                      (AddError resp ''Client Error''
                         (''Unable to create example, got error: '' @ err), [httpReq])
                  | Inr httpResp \<Rightarrow>
                      (case Body httpResp of
                         Inl err \<Rightarrow>
                           (AddError resp ''Client Error''
                              (''Unable to create asset, got error: '' @ err), [httpReq])
                       | Inr respBody \<Rightarrow>
                           if StatusCode httpResp \<noteq> 201 then
                             (AddError resp ''Client Error''
                                (''Unable to create asset, got error: '' @ Status httpResp), [httpReq])
                           else
                             let zone = fst (Unmarshal respBody
                                           (decode_struct member_AssetResponse_Create) AssetResponse_Create_zero);
                                 data1 = data\<lparr>AssetResourceModel.AssetName := Known (AssetResponse_Create.AssetName zone)\<rparr>;
                                 data2 = data1\<lparr>AssetResourceModel.Id := Known (AssetResponse_Create.AssetId zone)\<rparr>
                             in (State_Set asset_schema resp (object_AssetResourceModel data2), [httpReq])))"

text \<open>The loop of \<open>Read\<close>: the first entry with the held id overwrites two fields.\<close>

fun asset_scan :: "AssetResponse_Read list \<Rightarrow> AssetResourceModel \<Rightarrow> AssetResourceModel" where
  "asset_scan [] data = data"
| "asset_scan (asset # assets) data =
     (if AssetResponse_Read.AssetId asset = ValueInt64 (AssetResourceModel.Id data)
      then data\<lparr>AssetResourceModel.AssetName := Known (AssetResponse_Read.AssetName asset),
                AssetResourceModel.ZoneId := Known (AssetResponse_Read.ZoneId asset)\<rparr>
      else asset_scan assets data)"

definition PanopAssetResource_Read ::
  "net_http \<Rightarrow> client \<Rightarrow> tfobject \<Rightarrow> response \<Rightarrow> response \<times> http_request list" where
  "PanopAssetResource_Read net r state resp0 =
     (case get_AssetResourceModel state of (ds, data) \<Rightarrow>
      let resp = resp0\<lparr>Diagnostics := Append (Diagnostics resp0) ds\<rparr> in
      if HasError (Diagnostics resp) then (resp, [])
      else
        let urlSvc = \<lparr>Scheme = ''https'', Host = host r, Path = ''/api/assets''\<rparr>
        in case NewRequest net ''GET'' urlSvc None of
             Inl err \<Rightarrow> (AddError resp ''HTTP request creation error'' err, [])
           | Inr httpReq0 \<Rightarrow>
               let httpReq = Header_Add (Header_Add httpReq0 ''Authorization'' (''Bearer '' @ accessKey r))
                               ''Content-Type'' ''application/json''
               in case Do net httpReq of
                    Inl err \<Rightarrow> (AddError resp ''HTTP request error'' err, [httpReq])
                  | Inr httpResp \<Rightarrow>
                      (case Body httpResp of
                         Inl err \<Rightarrow>
                           (AddError resp ''Client Error''
                              (''Unable to create zonne, got error: '' @ err), [httpReq])
                       | Inr respBody \<Rightarrow>
                           if StatusCode httpResp \<noteq> 200 then
                             (AddError resp ''Client Error''
                                (''Unable to create zone, got error: '' @ Status httpResp), [httpReq])
                           else
                             let assets = fst (Unmarshal respBody
                                             (decode_slice member_AssetResponse_Read AssetResponse_Read_zero) [])
                             in (State_Set asset_schema resp
                                   (object_AssetResourceModel (asset_scan assets data)), [httpReq])))"

text \<open>
  \<open>PanopAssetResource.Update\<close> declares its \<open>data\<close> as a \<open>ZoneResourceModel\<close>: the plan
  of an asset is read into the struct of a zone, and that struct is written to the
  state of the asset.
\<close>

definition PanopAssetResource_Update :: "tfobject \<Rightarrow> response \<Rightarrow> response \<times> http_request list" where
  "PanopAssetResource_Update plan resp0 =
     (case get_ZoneResourceModel plan of (ds, data) \<Rightarrow>
      let resp = resp0\<lparr>Diagnostics := Append (Diagnostics resp0) ds\<rparr> in
      if HasError (Diagnostics resp) then (resp, [])
      else (State_Set asset_schema resp (object_ZoneResourceModel data), []))"

text \<open>In the message of the status test, \<open>err\<close> is nil, which \<open>%t\<close> prints as \<open>%!t(<nil>)\<close>.\<close>

definition PanopAssetResource_Delete ::
  "net_http \<Rightarrow> client \<Rightarrow> tfobject \<Rightarrow> response \<Rightarrow> response \<times> http_request list" where
  "PanopAssetResource_Delete net r state resp0 =
     (case get_AssetResourceModel state of (ds, data) \<Rightarrow>
      let resp = resp0\<lparr>Diagnostics := Append (Diagnostics resp0) ds\<rparr>;
          urlSvc = \<lparr>Scheme = ''https'', Host = host r,
                    Path = ''/api/assets/'' @ FormatInt (ValueInt64 (AssetResourceModel.Id data))\<rparr>
      in case NewRequest net ''DELETE'' urlSvc None of
           Inl err \<Rightarrow> (AddError resp ''HTTP request creation error'' err, [])
         | Inr httpReq0 \<Rightarrow>
             let httpReq = Header_Add (Header_Add httpReq0 ''Authorization'' (''Bearer '' @ accessKey r))
                             ''Content-Type'' ''application/json''
             in case Do net httpReq of
                  Inl err \<Rightarrow> (AddError resp ''HTTP request error'' err, [httpReq])
                | Inr httpResp \<Rightarrow>
                    if StatusCode httpResp \<noteq> 200 then
                      (AddError resp ''Client Error'' ''Unable to send deletion: %!t(<nil>)'', [httpReq])
                    else (resp, [httpReq]))"

definition PanopAssetResource_ImportState :: "string \<Rightarrow> response \<Rightarrow> response \<times> http_request list" where
  "PanopAssetResource_ImportState req_ID resp =
     (let ident = fst (ParseInt req_ID)
      in (SetAttribute_id (object_AssetResourceModel AssetResourceModel_zero) resp ident, []))"

section \<open>The data sources\<close>

text \<open>
  A Go slice is nil or a sequence: \<open>None\<close> is nil. A null list attribute is read into a
  nil slice and a nil slice is written as a null list; an unknown list cannot be read
  into a slice. \<open>append\<close> to a nil slice gives a slice of one element.
\<close>

fun get_elements :: "(tfobject \<Rightarrow> 'a option) \<Rightarrow> tfvalue list \<Rightarrow> 'a list option" where
  "get_elements f [] = Some []"
| "get_elements f (v # vs) =
     (case v of
        ObjectV obj \<Rightarrow>
          (case f obj of
             Some x \<Rightarrow> (case get_elements f vs of Some xs \<Rightarrow> Some (x # xs) | None \<Rightarrow> None)
           | None \<Rightarrow> None)
      | _ \<Rightarrow> None)"

definition get_slice :: "(tfobject \<Rightarrow> 'a option) \<Rightarrow> tfobject \<Rightarrow> string \<Rightarrow> 'a list option option" where
  "get_slice f obj k =
     (case map_of obj k of
        Some (ListV Null) \<Rightarrow> Some None
      | Some (ListV (Known vs)) \<Rightarrow> map_option Some (get_elements f vs)
      | _ \<Rightarrow> None)"

definition object_slice :: "('a \<Rightarrow> tfobject) \<Rightarrow> 'a list option \<Rightarrow> tfvalue" where
  "object_slice f sl = ListV (case sl of None \<Rightarrow> Null | Some xs \<Rightarrow> Known (map (\<lambda>x. ObjectV (f x)) xs))"

definition append_slice :: "'a list option \<Rightarrow> 'a \<Rightarrow> 'a list option" where
  "append_slice sl x = (case sl of None \<Rightarrow> Some [x] | Some xs \<Rightarrow> Some (xs @ [x]))"

definition slice_items :: "'a list option \<Rightarrow> 'a list" where
  "slice_items sl = (case sl of None \<Rightarrow> [] | Some xs \<Rightarrow> xs)"

subsection \<open>The zone data source\<close>

record ZoneModel =
  ZoneName :: "string tfval"
  TenantId :: "int64 tfval"
  Id :: "int64 tfval"
  ZoneType :: "string tfval"
  Token :: "string tfval"









text \<open>The struct \<open>ZoneResponse\<close> declared in \<open>PanopZoneDataSource.Read\<close>.\<close>

record ZoneResponse_List =
  Id :: uint
  ZoneName :: string
  ZoneType :: string
  Validated :: bool
  Token :: string
  TenantId :: uint






subsection \<open>The asset data source\<close>

record AssetDataSourceModel =
  AssetId :: "int64 tfval"
  AssetName :: "string tfval"
  ZoneId :: "int64 tfval"

record PanopAssetDataSourceModel =
  ZoneId :: "int64 tfval"
  Assets :: "AssetDataSourceModel list option"

definition AssetDataSourceModel_tags :: "string list" where
  "AssetDataSourceModel_tags = [''id'', ''asset_name'', ''zone_id'']"

definition get_AssetDataSourceModel :: "tfobject \<Rightarrow> AssetDataSourceModel option" where
  "get_AssetDataSourceModel obj =
     (if struct_mismatch AssetDataSourceModel_tags obj then None
      else case (get_Int64 obj ''id'', get_String obj ''asset_name'', get_Int64 obj ''zone_id'') of
             (Some i, Some n, Some z) \<Rightarrow>
               Some \<lparr>AssetId = i, AssetName = n, AssetDataSourceModel.ZoneId = z\<rparr>
           | _ \<Rightarrow> None)"

definition object_AssetDataSourceModel :: "AssetDataSourceModel \<Rightarrow> tfobject" where
  "object_AssetDataSourceModel a =
     [(''id'', Int64V (AssetDataSourceModel.AssetId a)),
      (''asset_name'', StringV (AssetDataSourceModel.AssetName a)),
      (''zone_id'', Int64V (AssetDataSourceModel.ZoneId a))]"

definition PanopAssetDataSourceModel_tags :: "string list" where
  "PanopAssetDataSourceModel_tags = [''zone_id'', ''assets'']"

text \<open>The attributes of the schema of \<open>PanopAssetDataSource\<close>.\<close>

definition asset_ds_schema :: "string list" where
  "asset_ds_schema = [''zone_id'', ''assets'']"

definition get_PanopAssetDataSourceModel :: "tfobject \<Rightarrow> diagnostic list \<times> PanopAssetDataSourceModel" where
  "get_PanopAssetDataSourceModel obj =
     (if struct_mismatch PanopAssetDataSourceModel_tags obj
      then ([mismatch_error], \<lparr>ZoneId = Null, Assets = None\<rparr>)
      else case (get_Int64 obj ''zone_id'', get_slice get_AssetDataSourceModel obj ''assets'') of
             (Some z, Some as) \<Rightarrow> ([], \<lparr>ZoneId = z, Assets = as\<rparr>)
           | _ \<Rightarrow> ([conversion_error], \<lparr>ZoneId = Null, Assets = None\<rparr>))"

definition object_PanopAssetDataSourceModel :: "PanopAssetDataSourceModel \<Rightarrow> tfobject" where
  "object_PanopAssetDataSourceModel d =
     [(''zone_id'', Int64V (PanopAssetDataSourceModel.ZoneId d)),
      (''assets'', object_slice object_AssetDataSourceModel (Assets d))]"

definition assetModel_of :: "AssetResponse_Read \<Rightarrow> AssetDataSourceModel" where
  "assetModel_of asset =
     \<lparr>AssetDataSourceModel.AssetId = Known (AssetResponse_Read.AssetId asset),
      AssetDataSourceModel.AssetName = Known (AssetResponse_Read.AssetName asset),
      AssetDataSourceModel.ZoneId = Known (AssetResponse_Read.ZoneId asset)\<rparr>"

fun asset_list_loop :: "AssetResponse_Read list \<Rightarrow> PanopAssetDataSourceModel \<Rightarrow> PanopAssetDataSourceModel" where
  "asset_list_loop [] data = data"
| "asset_list_loop (asset # assets) data =
     (let assetModel = assetModel_of asset
      in asset_list_loop assets
           (if AssetDataSourceModel.ZoneId assetModel = PanopAssetDataSourceModel.ZoneId data
               \<or> IsNull (PanopAssetDataSourceModel.ZoneId data)
            then data\<lparr>Assets := append_slice (Assets data) assetModel\<rparr>
            else data))"

definition PanopAssetDataSource_Read ::
  "net_http \<Rightarrow> client \<Rightarrow> tfobject \<Rightarrow> response \<Rightarrow> response \<times> http_request list" where
  "PanopAssetDataSource_Read net d config resp0 =
     (case get_PanopAssetDataSourceModel config of (ds, data) \<Rightarrow>
      let resp = resp0\<lparr>Diagnostics := Append (Diagnostics resp0) ds\<rparr> in
      if HasError (Diagnostics resp) then (resp, [])
      else
        let urlSvc = \<lparr>Scheme = ''https'', Host = host d, Path = ''/api/assets''\<rparr>
        in case NewRequest net ''GET'' urlSvc None of
             Inl err \<Rightarrow> (AddError resp ''HTTP request creation error'' err, [])
           | Inr httpReq0 \<Rightarrow>
               let httpReq = Header_Add (Header_Add httpReq0 ''Authorization'' (''Bearer '' @ accessKey d))
                               ''Content-Type'' ''application/json''
               in case Do net httpReq of
                    Inl err \<Rightarrow> (AddError resp ''HTTP request error'' err, [httpReq])
                  | Inr httpResp \<Rightarrow>
                      (case Body httpResp of
                         Inl err \<Rightarrow>
                           (AddError resp ''Client Error''
                              (''Unable to create zonne, got error: '' @ err), [httpReq])
                       | Inr respBody \<Rightarrow>
                           if StatusCode httpResp \<noteq> 200 then
                             (AddError resp ''Client Error''
                                (''Unable to create zone, got error: '' @ Status httpResp), [httpReq])
                           else
                             let assets = fst (Unmarshal respBody
                                             (decode_slice member_AssetResponse_Read AssetResponse_Read_zero) [])
                             in (State_Set asset_ds_schema resp
                                   (object_PanopAssetDataSourceModel (asset_list_loop assets data)), [httpReq])))"

section \<open>The requests and the remote service, as the properties name them\<close>

text \<open>
  The request that the operations build for a method, a path and a body, with the two
  headers; \<open>PanopZoneResource.Delete\<close> alone sends no \<open>Content-Type\<close>.
\<close>

definition api_request :: "string \<Rightarrow> client \<Rightarrow> string \<Rightarrow> json option \<Rightarrow> http_request" where
  "api_request m c p body =
     \<lparr>Method = m, URL = \<lparr>Scheme = ''https'', Host = host c, Path = p\<rparr>,
      Header = [(''Authorization'', ''Bearer '' @ accessKey c), (''Content-Type'', ''application/json'')],
      ReqBody = body\<rparr>"

definition zone_delete_request :: "client \<Rightarrow> int64 \<Rightarrow> http_request" where
  "zone_delete_request c i =
     \<lparr>Method = ''DELETE'', URL = \<lparr>Scheme = ''https'', Host = host c, Path = ''/api/zones/'' @ FormatInt i\<rparr>,
      Header = [(''Authorization'', ''Bearer '' @ accessKey c)], ReqBody = None\<rparr>"

text \<open>The request is accepted by \<open>http.NewRequest\<close> and the remote service answers it.\<close>

definition answers :: "net_http \<Rightarrow> http_request \<Rightarrow> http_response \<Rightarrow> bool" where
  "answers net req httpResp = (NewRequestErr net (URL req) = None \<and> Do net req = Inr httpResp)"

text \<open>The configuration of the asset data source: the optional filter, and no assets yet.\<close>

definition asset_ds_config :: "int64 tfval \<Rightarrow> tfobject" where
  "asset_ds_config z = [(''zone_id'', Int64V z), (''assets'', ListV Null)]"


text \<open>A service that answers every request with one status and one body.\<close>

definition fixed_service :: "int \<Rightarrow> json option \<Rightarrow> net_http" where
  "fixed_service st b =
     \<lparr>NewRequestErr = (\<lambda>_. None),
      Do = (\<lambda>_. Inr \<lparr>StatusCode = st, Status = ''status'', Body = Inr b\<rparr>)\<rparr>"

definition example_client :: client where
  "example_client = \<lparr>host = ''panop.example'', accessKey = ''key''\<rparr>"

definition empty_response :: response where
  "empty_response = \<lparr>Diagnostics = [], State = None\<rparr>"

text \<open>Three assets, of zones 1, 1 and 2.\<close>

definition assets_112 :: json where
  "assets_112 = JArr
     [JObj [(''id'', JNum False 10 []), (''asset_name'', JStr ''www''), (''zone_id'', JNum False 1 [])],
      JObj [(''id'', JNum False 11 []), (''asset_name'', JStr ''api''), (''zone_id'', JNum False 1 [])],
      JObj [(''id'', JNum False 12 []), (''asset_name'', JStr ''mail''), (''zone_id'', JNum False 2 [])]]"

text \<open>The requests of the two \<open>Create\<close> operations, with the payload built from the plan.\<close>

definition zone_create_request :: "client \<Rightarrow> ZoneResourceModel \<Rightarrow> http_request" where
  "zone_create_request r data = api_request ''POST'' r ''/api/zones''
     (Some (Marshal_ZoneInput \<lparr>ZoneInput.ZoneName = ValueString (ZoneResourceModel.ZoneName data),
                               ZoneInput.TenantId = 0\<rparr>))"

definition asset_create_request :: "client \<Rightarrow> AssetResourceModel \<Rightarrow> http_request" where
  "asset_create_request r data = api_request ''POST'' r ''/api/assets''
     (Some (Marshal_AssetInput \<lparr>AssetInput.AssetName = ValueString (AssetResourceModel.AssetName data),
                                AssetInput.ZoneId = ValueInt64 (AssetResourceModel.ZoneId data)\<rparr>))"

definition asset_delete_request :: "client \<Rightarrow> int64 \<Rightarrow> http_request" where
  "asset_delete_request c i = api_request ''DELETE'' c (''/api/assets/'' @ FormatInt i) None"

text \<open>A planned zone and a planned asset, and the same with identifiers, as held in a state.\<close>

definition zone_plan :: ZoneResourceModel where
  "zone_plan = \<lparr>ZoneResourceModel.ZoneName = Known ''example.com'', ZoneResourceModel.Id = Unknown,
                ZoneResourceModel.ZoneType = Known ''dns'', ZoneResourceModel.Token = Unknown\<rparr>"

definition asset_plan :: AssetResourceModel where
  "asset_plan = \<lparr>AssetResourceModel.AssetName = Known ''www'', AssetResourceModel.Id = Unknown,
                 AssetResourceModel.ZoneId = Known 337\<rparr>"

definition zone_held :: ZoneResourceModel where
  "zone_held = \<lparr>ZoneResourceModel.ZoneName = Known ''example.com'', ZoneResourceModel.Id = Known 7,
                ZoneResourceModel.ZoneType = Known ''dns'', ZoneResourceModel.Token = Known ''tok''\<rparr>"

definition asset_held :: AssetResourceModel where
  "asset_held = \<lparr>AssetResourceModel.AssetName = Known ''www'', AssetResourceModel.Id = Known 5,
                 AssetResourceModel.ZoneId = Known 337\<rparr>"

text \<open>
  Bodies of answers to \<open>Create\<close>: a created zone whose \<open>zone_type\<close> differs from the
  planned one; a created asset; a created asset whose \<open>asset_id\<close> is a string.
\<close>

definition zone_created_http :: json where
  "zone_created_http = JObj
     [(''zone_id'', JNum False 7 []), (''zone_name'', JStr ''example.com''),
      (''zone_type'', JStr ''http''), (''validated'', JBool False), (''token'', JStr ''tok'')]"

definition asset_created :: json where
  "asset_created = JObj [(''asset_id'', JNum False 5 []), (''asset_name'', JStr ''srv'')]"

definition asset_created_bad_id :: json where
  "asset_created_bad_id = JObj [(''asset_id'', JStr ''x''), (''asset_name'', JStr ''srv'')]"

definition is_object :: "json \<Rightarrow> bool" where
  "is_object j = (case j of JObj _ \<Rightarrow> True | _ \<Rightarrow> False)"


text \<open>The member names of the JSON object that a request carries as its body.\<close>

definition body_keys :: "http_request \<Rightarrow> string list" where
  "body_keys req = (case ReqBody req of Some (JObj kvs) \<Rightarrow> map fst kvs | _ \<Rightarrow> [])"

text \<open>The held asset with a new planned name.\<close>

definition asset_renamed :: AssetResourceModel where
  "asset_renamed = \<lparr>AssetResourceModel.AssetName = Known ''web'', AssetResourceModel.Id = Known 5,
                    AssetResourceModel.ZoneId = Known 337\<rparr>"

text \<open>A zone collection in which two entries have the id 7.\<close>

definition zones_377 :: json where
  "zones_377 = JArr
     [JObj [(''id'', JNum False 3 []), (''zone_name'', JStr ''other.org''), (''zone_type'', JStr ''dns''),
            (''validated'', JBool True), (''token'', JStr ''t3''), (''tenant_id'', JNum False 1 [])],
      JObj [(''id'', JNum False 7 []), (''zone_name'', JStr ''renamed.com''), (''zone_type'', JStr ''http''),
            (''validated'', JBool True), (''token'', JStr ''tok2''), (''tenant_id'', JNum False 1 [])],
      JObj [(''id'', JNum False 7 []), (''zone_name'', JStr ''second.com''), (''zone_type'', JStr ''dns''),
            (''validated'', JBool False), (''token'', JStr ''t7''), (''tenant_id'', JNum False 1 [])]]"

text \<open>Decimal digits and the number that a string of digits denotes.\<close>

definition is_digit :: "char \<Rightarrow> bool" where
  "is_digit c = ((48::nat) \<le> of_char c \<and> of_char c \<le> (57::nat))"

fun digits_from :: "nat \<Rightarrow> string \<Rightarrow> nat" where
  "digits_from n [] = n"
| "digits_from n (c # cs) = digits_from (n * 10 + (of_char c - 48)) cs"

definition digits_value :: "string \<Rightarrow> nat" where
  "digits_value ds = digits_from 0 ds"



section \<open>Properties\<close>

subsection \<open>Diagnostics and objects\<close>

lemma HasError_append: "HasError (xs @ ys) = (HasError xs \<or> HasError ys)"
  by (induction xs) (auto split: diagnostic.splits)

lemma member_HasError: "Diagnostic SeverityError s t \<in> set ds \<Longrightarrow> HasError ds"
  by (induction ds) (auto split: diagnostic.splits)

lemma HasError_AddError: "HasError (Diagnostics (AddError resp s t))"
  by (simp add: AddError_def HasError_append member_HasError)

lemma State_AddError: "State (AddError resp s t) = State resp"
  by (simp add: AddError_def)

lemma answers_fixed_service:
  "answers (fixed_service st b) req \<lparr>StatusCode = st, Status = ''status'', Body = Inr b\<rparr>"
  by (simp add: answers_def fixed_service_def)

subsection \<open>The filter of the asset data source\<close>

lemma asset_list_loop_filter:
  "asset_list_loop assets data =
     data\<lparr>Assets :=
       (let kept = filter (\<lambda>a. PanopAssetDataSourceModel.ZoneId data = Null
                            \<or> PanopAssetDataSourceModel.ZoneId data = Known (AssetResponse_Read.ZoneId a)) assets
        in if kept = [] then Assets data
           else Some (slice_items (Assets data) @ map assetModel_of kept))\<rparr>"
proof (induction assets arbitrary: data)
  case Nil
  show ?case by simp
next
  case (Cons a assets)
  show ?case
    by (cases "PanopAssetDataSourceModel.ZoneId data"; cases "Assets data")
       (auto simp: Cons Let_def assetModel_of_def IsNull_def append_slice_def slice_items_def)
qed

lemma get_asset_ds_config:
  "get_PanopAssetDataSourceModel (asset_ds_config z) = ([], \<lparr>ZoneId = z, Assets = None\<rparr>)"
  by (simp add: get_PanopAssetDataSourceModel_def asset_ds_config_def struct_mismatch_def
      PanopAssetDataSourceModel_tags_def get_Int64_def get_slice_def)

lemma Set_asset_ds:
  "State_Set asset_ds_schema resp (object_PanopAssetDataSourceModel data) =
     resp\<lparr>State := Some (object_PanopAssetDataSourceModel data)\<rparr>"
  by (simp add: State_Set_def struct_mismatch_def asset_ds_schema_def object_PanopAssetDataSourceModel_def)

lemma PanopAssetDataSource_Read_ok:
  assumes "\<not> HasError (Diagnostics resp0)"
    and "answers net (api_request ''GET'' d ''/api/assets'' None) httpResp"
    and "StatusCode httpResp = 200"
    and "Body httpResp = Inr respBody"
  shows "PanopAssetDataSource_Read net d (asset_ds_config z) resp0 =
     (resp0\<lparr>State := Some (object_PanopAssetDataSourceModel
         (asset_list_loop
            (fst (Unmarshal respBody (decode_slice member_AssetResponse_Read AssetResponse_Read_zero) []))
            \<lparr>ZoneId = z, Assets = None\<rparr>))\<rparr>,
      [api_request ''GET'' d ''/api/assets'' None])"
  using assms
  by (simp add: PanopAssetDataSource_Read_def get_asset_ds_config NewRequest_def Header_Add_def
      answers_def api_request_def Set_asset_ds Let_def)

text \<open>
  C1. When the asset data source reads with status 200, the assets it writes to the
  state are the decoded records whose \<open>zone_id\<close> is the filter value when a filter is
  given, and all decoded records when the filter is null, in the order of the response
  (written as a null list when none is kept).
\<close>

theorem C1_asset_lister_filter:
  assumes "\<not> HasError (Diagnostics resp0)"
    and "answers net (api_request ''GET'' d ''/api/assets'' None) httpResp"
    and "StatusCode httpResp = 200"
    and "Body httpResp = Inr respBody"
  shows "fst (PanopAssetDataSource_Read net d (asset_ds_config z) resp0) =
     resp0\<lparr>State := Some (object_PanopAssetDataSourceModel
        \<lparr>ZoneId = z,
         Assets =
           (let decoded = fst (Unmarshal respBody
                               (decode_slice member_AssetResponse_Read AssetResponse_Read_zero) []);
                kept = filter (\<lambda>a. z = Null \<or> z = Known (AssetResponse_Read.ZoneId a)) decoded
            in if kept = [] then None else Some (map assetModel_of kept))\<rparr>)\<rparr>"
  by (simp add: PanopAssetDataSource_Read_ok [OF assms] asset_list_loop_filter Let_def slice_items_def)

lemma decode_assets_112:
  "fst (Unmarshal (Some assets_112) (decode_slice member_AssetResponse_Read AssetResponse_Read_zero) []) =
     [\<lparr>AssetResponse_Read.AssetId = 10, AssetResponse_Read.AssetName = ''www'', AssetResponse_Read.ZoneId = 1\<rparr>,
      \<lparr>AssetResponse_Read.AssetId = 11, AssetResponse_Read.AssetName = ''api'', AssetResponse_Read.ZoneId = 1\<rparr>,
      \<lparr>AssetResponse_Read.AssetId = 12, AssetResponse_Read.AssetName = ''mail'', AssetResponse_Read.ZoneId = 2\<rparr>]"
  by (simp add: Unmarshal_def decode_slice_def decode_struct_def assets_112_def member_AssetResponse_Read_def
      matchField_def store_int64_def store_string_def AssetResponse_Read_zero_def)

theorem C1_asset_lister_filter_witness:
  "\<not> HasError (Diagnostics empty_response)
   \<and> answers (fixed_service 200 (Some assets_112)) (api_request ''GET'' example_client ''/api/assets'' None)
        \<lparr>StatusCode = 200, Status = ''status'', Body = Inr (Some assets_112)\<rparr>
   \<and> fst (PanopAssetDataSource_Read (fixed_service 200 (Some assets_112)) example_client
            (asset_ds_config (Known 1)) empty_response) =
       \<lparr>Diagnostics = [],
        State = Some [(''zone_id'', Int64V (Known 1)),
                      (''assets'', ListV (Known
                         [ObjectV [(''id'', Int64V (Known 10)), (''asset_name'', StringV (Known ''www'')),
                                   (''zone_id'', Int64V (Known 1))],
                          ObjectV [(''id'', Int64V (Known 11)), (''asset_name'', StringV (Known ''api'')),
                                   (''zone_id'', Int64V (Known 1))]]))]\<rparr>
   \<and> fst (PanopAssetDataSource_Read (fixed_service 200 (Some assets_112)) example_client
            (asset_ds_config Null) empty_response) =
       \<lparr>Diagnostics = [],
        State = Some [(''zone_id'', Int64V Null),
                      (''assets'', ListV (Known
                         [ObjectV [(''id'', Int64V (Known 10)), (''asset_name'', StringV (Known ''www'')),
                                   (''zone_id'', Int64V (Known 1))],
                          ObjectV [(''id'', Int64V (Known 11)), (''asset_name'', StringV (Known ''api'')),
                                   (''zone_id'', Int64V (Known 1))],
                          ObjectV [(''id'', Int64V (Known 12)), (''asset_name'', StringV (Known ''mail'')),
                                   (''zone_id'', Int64V (Known 2))]]))]\<rparr>"
  using C1_asset_lister_filter [of empty_response "fixed_service 200 (Some assets_112)" example_client
          "\<lparr>StatusCode = 200, Status = ''status'', Body = Inr (Some assets_112)\<rparr>" "Some assets_112" "Known 1"]
        C1_asset_lister_filter [of empty_response "fixed_service 200 (Some assets_112)" example_client
          "\<lparr>StatusCode = 200, Status = ''status'', Body = Inr (Some assets_112)\<rparr>" "Some assets_112" Null]
  by (simp add: answers_fixed_service decode_assets_112 empty_response_def
      object_PanopAssetDataSourceModel_def object_slice_def object_AssetDataSourceModel_def assetModel_of_def)

lemma get_object_ZoneResourceModel: "get_ZoneResourceModel (object_ZoneResourceModel data) = ([], data)"
  by (simp add: get_ZoneResourceModel_def object_ZoneResourceModel_def struct_mismatch_def
      ZoneResourceModel_tags_def get_String_def get_Int64_def)

lemma get_object_AssetResourceModel: "get_AssetResourceModel (object_AssetResourceModel data) = ([], data)"
  by (simp add: get_AssetResourceModel_def object_AssetResourceModel_def struct_mismatch_def
      AssetResourceModel_tags_def get_String_def get_Int64_def)

lemma Set_zone:
  "State_Set zone_schema resp (object_ZoneResourceModel data) =
     resp\<lparr>State := Some (object_ZoneResourceModel data)\<rparr>"
  by (auto simp add: State_Set_def struct_mismatch_def zone_schema_def object_ZoneResourceModel_def)

lemma Set_asset:
  "State_Set asset_schema resp (object_AssetResourceModel data) =
     resp\<lparr>State := Some (object_AssetResourceModel data)\<rparr>"
  by (auto simp add: State_Set_def struct_mismatch_def asset_schema_def object_AssetResourceModel_def)

subsection \<open>Status codes of \<open>Create\<close> and \<open>Delete\<close>\<close>

lemma zone_create_not_201:
  assumes "Do net (zone_create_request r data) = Inr httpResp" and "StatusCode httpResp \<noteq> 201"
  shows "HasError (Diagnostics (fst (PanopZoneResource_Create net r (object_ZoneResourceModel data) resp0)))
       \<and> State (fst (PanopZoneResource_Create net r (object_ZoneResourceModel data) resp0)) = State resp0"
  using assms
  by (auto simp: PanopZoneResource_Create_def get_object_ZoneResourceModel NewRequest_def Header_Add_def
      zone_create_request_def api_request_def Let_def HasError_AddError State_AddError
      split: option.splits sum.splits)

lemma asset_create_not_201:
  assumes "Do net (asset_create_request r data) = Inr httpResp" and "StatusCode httpResp \<noteq> 201"
  shows "HasError (Diagnostics (fst (PanopAssetResource_Create net r (object_AssetResourceModel data) resp0)))
       \<and> State (fst (PanopAssetResource_Create net r (object_AssetResourceModel data) resp0)) = State resp0"
  using assms
  by (auto simp: PanopAssetResource_Create_def get_object_AssetResourceModel NewRequest_def Header_Add_def
      asset_create_request_def api_request_def Let_def HasError_AddError State_AddError
      split: option.splits sum.splits)

lemma zone_delete_not_200:
  assumes "Do net (zone_delete_request r (ValueInt64 (ZoneResourceModel.Id data))) = Inr httpResp"
    and "StatusCode httpResp \<noteq> 200"
  shows "HasError (Diagnostics (fst (PanopZoneResource_Delete net r (object_ZoneResourceModel data) resp0)))
       \<and> State (fst (PanopZoneResource_Delete net r (object_ZoneResourceModel data) resp0)) = State resp0"
  using assms
  by (auto simp: PanopZoneResource_Delete_def get_object_ZoneResourceModel NewRequest_def Header_Add_def
      zone_delete_request_def Let_def HasError_AddError State_AddError
      split: option.splits sum.splits)

lemma asset_delete_not_200:
  assumes "Do net (asset_delete_request r (ValueInt64 (AssetResourceModel.Id data))) = Inr httpResp"
    and "StatusCode httpResp \<noteq> 200"
  shows "HasError (Diagnostics (fst (PanopAssetResource_Delete net r (object_AssetResourceModel data) resp0)))
       \<and> State (fst (PanopAssetResource_Delete net r (object_AssetResourceModel data) resp0)) = State resp0"
  using assms
  by (auto simp: PanopAssetResource_Delete_def get_object_AssetResourceModel NewRequest_def Header_Add_def
      asset_delete_request_def api_request_def Let_def HasError_AddError State_AddError
      split: option.splits sum.splits)

text \<open>
  C2. When the remote service answers the request of a \<open>Create\<close> (zone or asset) with a
  status other than 201, the operation reports an error and does not write the state, so
  that no identifier is stored; when it answers the request of a \<open>Delete\<close> (zone or asset)
  with a status other than 200, such as 404, the operation reports an error and leaves
  the state as it is.
\<close>

theorem C2_status_gating:
  "(Do net (zone_create_request r zdata) = Inr httpResp \<and> StatusCode httpResp \<noteq> 201 \<longrightarrow>
      HasError (Diagnostics (fst (PanopZoneResource_Create net r (object_ZoneResourceModel zdata) resp0)))
      \<and> State (fst (PanopZoneResource_Create net r (object_ZoneResourceModel zdata) resp0)) = State resp0)
   \<and> (Do net (asset_create_request r adata) = Inr httpResp \<and> StatusCode httpResp \<noteq> 201 \<longrightarrow>
      HasError (Diagnostics (fst (PanopAssetResource_Create net r (object_AssetResourceModel adata) resp0)))
      \<and> State (fst (PanopAssetResource_Create net r (object_AssetResourceModel adata) resp0)) = State resp0)
   \<and> (Do net (zone_delete_request r (ValueInt64 (ZoneResourceModel.Id zdata))) = Inr httpResp
       \<and> StatusCode httpResp \<noteq> 200 \<longrightarrow>
      HasError (Diagnostics (fst (PanopZoneResource_Delete net r (object_ZoneResourceModel zdata) resp0)))
      \<and> State (fst (PanopZoneResource_Delete net r (object_ZoneResourceModel zdata) resp0)) = State resp0)
   \<and> (Do net (asset_delete_request r (ValueInt64 (AssetResourceModel.Id adata))) = Inr httpResp
       \<and> StatusCode httpResp \<noteq> 200 \<longrightarrow>
      HasError (Diagnostics (fst (PanopAssetResource_Delete net r (object_AssetResourceModel adata) resp0)))
      \<and> State (fst (PanopAssetResource_Delete net r (object_AssetResourceModel adata) resp0)) = State resp0)"
  using zone_create_not_201 asset_create_not_201 zone_delete_not_200 asset_delete_not_200
  by blast

theorem C2_status_gating_witness:
  "Do (fixed_service 500 None) (zone_create_request example_client zone_plan) =
     Inr \<lparr>StatusCode = 500, Status = ''status'', Body = Inr None\<rparr>
   \<and> (500::int) \<noteq> 201
   \<and> HasError (Diagnostics (fst (PanopZoneResource_Create (fixed_service 500 None) example_client
                                   (object_ZoneResourceModel zone_plan) empty_response)))
   \<and> State (fst (PanopZoneResource_Create (fixed_service 500 None) example_client
                   (object_ZoneResourceModel zone_plan) empty_response)) = None
   \<and> HasError (Diagnostics (fst (PanopAssetResource_Create (fixed_service 500 None) example_client
                                   (object_AssetResourceModel asset_plan) empty_response)))
   \<and> State (fst (PanopAssetResource_Create (fixed_service 500 None) example_client
                   (object_AssetResourceModel asset_plan) empty_response)) = None
   \<and> Do (fixed_service 404 None) (zone_delete_request example_client (ValueInt64 (ZoneResourceModel.Id zone_held))) =
     Inr \<lparr>StatusCode = 404, Status = ''status'', Body = Inr None\<rparr>
   \<and> (404::int) \<noteq> 200
   \<and> HasError (Diagnostics (fst (PanopZoneResource_Delete (fixed_service 404 None) example_client
                                   (object_ZoneResourceModel zone_held) empty_response)))
   \<and> HasError (Diagnostics (fst (PanopAssetResource_Delete (fixed_service 404 None) example_client
                                   (object_AssetResourceModel asset_held) empty_response)))"
  using C2_status_gating [of "fixed_service 500 None" example_client zone_plan
          "\<lparr>StatusCode = 500, Status = ''status'', Body = Inr None\<rparr>" empty_response asset_plan]
        C2_status_gating [of "fixed_service 404 None" example_client zone_held
          "\<lparr>StatusCode = 404, Status = ''status'', Body = Inr None\<rparr>" empty_response asset_held]
  by (simp add: fixed_service_def empty_response_def)

subsection \<open>\<open>Create\<close> answered with 201\<close>

lemma store_Marshal_int64: "store_int64 (Marshal_int64 w) cur = (w, False)"
proof -
  have lo: "- (2 ^ 63) \<le> sint w" using sint_ge [of w] by simp
  have hi: "sint w < 2 ^ 63" using sint_lt [of w] by simp
  show ?thesis
  proof (cases "sint w < 0")
    case True
    have "nat \<bar>sint w\<bar> \<le> 2 ^ 63" using lo True by (simp add: nat_le_iff)
    moreover have "- (word_of_nat (nat \<bar>sint w\<bar>) :: int64) = w"
    proof -
      have "(word_of_nat (nat \<bar>sint w\<bar>) :: int64) = word_of_int (- sint w)"
        using True by (simp add: of_nat_nat)
      then show ?thesis by simp
    qed
    ultimately show ?thesis using True by (simp add: store_int64_def Marshal_int64_def)
  next
    case False
    have "nat \<bar>sint w\<bar> < 2 ^ 63" using hi False by (simp add: nat_less_iff)
    moreover have "(word_of_nat (nat \<bar>sint w\<bar>) :: int64) = w"
      using False by (simp add: of_nat_nat)
    ultimately show ?thesis using False by (simp add: store_int64_def Marshal_int64_def)
  qed
qed

lemma zone_create_201:
  assumes "\<not> HasError (Diagnostics resp0)"
    and "answers net (zone_create_request r data) httpResp"
    and "StatusCode httpResp = 201"
    and "Body httpResp = Inr respBody"
  shows "PanopZoneResource_Create net r (object_ZoneResourceModel data) resp0 =
     (resp0\<lparr>State := Some (object_ZoneResourceModel
         (data\<lparr>ZoneResourceModel.Token := Known (ZoneResponse_Create.Token
                   (fst (Unmarshal respBody (decode_struct member_ZoneResponse_Create) ZoneResponse_Create_zero))),
                ZoneResourceModel.Id := Known (ZoneResponse_Create.ZoneId
                   (fst (Unmarshal respBody (decode_struct member_ZoneResponse_Create) ZoneResponse_Create_zero)))\<rparr>))\<rparr>,
      [zone_create_request r data])"
  using assms
  by (simp add: PanopZoneResource_Create_def get_object_ZoneResourceModel NewRequest_def Header_Add_def
      answers_def zone_create_request_def api_request_def Set_zone Let_def)

lemma asset_create_201:
  assumes "\<not> HasError (Diagnostics resp0)"
    and "answers net (asset_create_request r data) httpResp"
    and "StatusCode httpResp = 201"
    and "Body httpResp = Inr respBody"
  shows "PanopAssetResource_Create net r (object_AssetResourceModel data) resp0 =
     (resp0\<lparr>State := Some (object_AssetResourceModel
         (data\<lparr>AssetResourceModel.AssetName := Known (AssetResponse_Create.AssetName
                   (fst (Unmarshal respBody (decode_struct member_AssetResponse_Create) AssetResponse_Create_zero))),
                AssetResourceModel.Id := Known (AssetResponse_Create.AssetId
                   (fst (Unmarshal respBody (decode_struct member_AssetResponse_Create) AssetResponse_Create_zero)))\<rparr>))\<rparr>,
      [asset_create_request r data])"
  using assms
  by (simp add: PanopAssetResource_Create_def get_object_AssetResourceModel NewRequest_def Header_Add_def
      answers_def asset_create_request_def api_request_def Set_asset Let_def)

lemma decode_zone_created_http:
  "fst (Unmarshal (Some zone_created_http) (decode_struct member_ZoneResponse_Create) ZoneResponse_Create_zero) =
     \<lparr>ZoneResponse_Create.ZoneId = 7, ZoneResponse_Create.ZoneName = ''example.com'',
      ZoneResponse_Create.ZoneType = ''http'', ZoneResponse_Create.Validated = False,
      ZoneResponse_Create.Token = ''tok''\<rparr>"
  by (simp add: Unmarshal_def decode_struct_def zone_created_http_def member_ZoneResponse_Create_def
      matchField_def store_uint_def store_string_def store_bool_def ZoneResponse_Create_zero_def)

lemma decode_asset_created:
  "fst (Unmarshal (Some asset_created) (decode_struct member_AssetResponse_Create) AssetResponse_Create_zero) =
     \<lparr>AssetResponse_Create.AssetId = 5, AssetResponse_Create.AssetName = ''srv''\<rparr>"
  by (simp add: Unmarshal_def decode_struct_def asset_created_def member_AssetResponse_Create_def
      matchField_def store_uint_def store_string_def AssetResponse_Create_zero_def)

lemma decode_asset_created_bad_id:
  "Unmarshal (Some asset_created_bad_id) (decode_struct member_AssetResponse_Create) AssetResponse_Create_zero =
     (\<lparr>AssetResponse_Create.AssetId = 0, AssetResponse_Create.AssetName = ''srv''\<rparr>, True)"
  by (simp add: Unmarshal_def decode_struct_def asset_created_bad_id_def member_AssetResponse_Create_def
      matchField_def store_uint_def store_string_def AssetResponse_Create_zero_def)

text \<open>
  C3 (as stated). The claim has the stored \<open>zone_type\<close> reflect the \<open>zone_type\<close> of the
  response. Here the response to a zone planned with type \<open>dns\<close> carries \<open>http\<close>, and the
  stored \<open>zone_type\<close> is \<open>dns\<close>.
\<close>

theorem C3_zone_type_counterexample:
  "ZoneResponse_Create.ZoneType
     (fst (Unmarshal (Some zone_created_http) (decode_struct member_ZoneResponse_Create)
             ZoneResponse_Create_zero)) = ''http''
   \<and> fst (PanopZoneResource_Create (fixed_service 201 (Some zone_created_http)) example_client
            (object_ZoneResourceModel zone_plan) empty_response) =
       \<lparr>Diagnostics = [],
        State = Some [(''zone_name'', StringV (Known ''example.com'')), (''id'', Int64V (Known 7)),
                      (''zone_type'', StringV (Known ''dns'')), (''token'', StringV (Known ''tok''))]\<rparr>"
  using zone_create_201 [of empty_response "fixed_service 201 (Some zone_created_http)" example_client zone_plan
          "\<lparr>StatusCode = 201, Status = ''status'', Body = Inr (Some zone_created_http)\<rparr>" "Some zone_created_http"]
  by (simp add: answers_fixed_service decode_zone_created_http empty_response_def zone_plan_def
      object_ZoneResourceModel_def)

text \<open>
  C3 (amended). When a zone \<open>Create\<close> is answered with 201, the stored record has \<open>id\<close>
  and \<open>token\<close> from the decoded response body, and \<open>zone_name\<close> and \<open>zone_type\<close> as the
  caller planned them; the \<open>zone_type\<close> of the response is not used.
\<close>

theorem C3_zone_create_fields:
  assumes "\<not> HasError (Diagnostics resp0)"
    and "answers net (zone_create_request r data) httpResp"
    and "StatusCode httpResp = 201"
    and "Body httpResp = Inr respBody"
  shows "fst (PanopZoneResource_Create net r (object_ZoneResourceModel data) resp0) =
     (let zone = fst (Unmarshal respBody (decode_struct member_ZoneResponse_Create) ZoneResponse_Create_zero)
      in resp0\<lparr>State := Some (object_ZoneResourceModel
           \<lparr>ZoneResourceModel.ZoneName = ZoneResourceModel.ZoneName data,
            ZoneResourceModel.Id = Known (ZoneResponse_Create.ZoneId zone),
            ZoneResourceModel.ZoneType = ZoneResourceModel.ZoneType data,
            ZoneResourceModel.Token = Known (ZoneResponse_Create.Token zone)\<rparr>)\<rparr>)"
  unfolding zone_create_201 [OF assms]
  by (simp add: Let_def object_ZoneResourceModel_def)

theorem C3_zone_create_fields_witness:
  "\<not> HasError (Diagnostics empty_response)
   \<and> answers (fixed_service 201 (Some zone_created_http)) (zone_create_request example_client zone_plan)
        \<lparr>StatusCode = 201, Status = ''status'', Body = Inr (Some zone_created_http)\<rparr>
   \<and> fst (PanopZoneResource_Create (fixed_service 201 (Some zone_created_http)) example_client
            (object_ZoneResourceModel zone_plan) empty_response) =
       empty_response\<lparr>State := Some (object_ZoneResourceModel
           \<lparr>ZoneResourceModel.ZoneName = Known ''example.com'', ZoneResourceModel.Id = Known 7,
            ZoneResourceModel.ZoneType = Known ''dns'', ZoneResourceModel.Token = Known ''tok''\<rparr>)\<rparr>"
  using C3_zone_create_fields [of empty_response "fixed_service 201 (Some zone_created_http)" example_client
          zone_plan "\<lparr>StatusCode = 201, Status = ''status'', Body = Inr (Some zone_created_http)\<rparr>"
          "Some zone_created_http"]
  by (simp add: answers_fixed_service decode_zone_created_http empty_response_def zone_plan_def)

text \<open>
  C6. When an asset \<open>Create\<close> whose plan holds \<open>zone_id = Z\<close> is answered with 201, the
  stored \<open>zone_id\<close> is \<open>Z\<close>; the one request sent carries as \<open>zone_id\<close> the number \<open>Z\<close>,
  which decodes back to \<open>Z\<close>; the response is not consulted for it.
\<close>

theorem C6_asset_zone_id_verbatim:
  assumes "\<not> HasError (Diagnostics resp0)"
    and "answers net (asset_create_request r data) httpResp"
    and "StatusCode httpResp = 201"
    and "Body httpResp = Inr respBody"
    and "AssetResourceModel.ZoneId data = Known Z"
  shows "(\<exists>n i. State (fst (PanopAssetResource_Create net r (object_AssetResourceModel data) resp0)) =
            Some [(''asset_name'', StringV n), (''id'', Int64V i), (''zone_id'', Int64V (Known Z))])
       \<and> snd (PanopAssetResource_Create net r (object_AssetResourceModel data) resp0) =
           [api_request ''POST'' r ''/api/assets''
              (Some (JObj [(''asset_name'', JStr (ValueString (AssetResourceModel.AssetName data))),
                           (''zone_id'', Marshal_int64 Z)]))]
       \<and> store_int64 (Marshal_int64 Z) 0 = (Z, False)"
  unfolding asset_create_201 [OF assms(1-4)]
  using assms(5)
  by (simp add: object_AssetResourceModel_def asset_create_request_def
      Marshal_AssetInput_def ValueInt64_def store_Marshal_int64)

theorem C6_asset_zone_id_verbatim_witness:
  "\<not> HasError (Diagnostics empty_response)
   \<and> answers (fixed_service 201 (Some asset_created)) (asset_create_request example_client asset_plan)
        \<lparr>StatusCode = 201, Status = ''status'', Body = Inr (Some asset_created)\<rparr>
   \<and> AssetResourceModel.ZoneId asset_plan = Known 337
   \<and> State (fst (PanopAssetResource_Create (fixed_service 201 (Some asset_created)) example_client
                   (object_AssetResourceModel asset_plan) empty_response)) =
       Some [(''asset_name'', StringV (Known ''srv'')), (''id'', Int64V (Known 5)),
             (''zone_id'', Int64V (Known 337))]
   \<and> snd (PanopAssetResource_Create (fixed_service 201 (Some asset_created)) example_client
            (object_AssetResourceModel asset_plan) empty_response) =
       [api_request ''POST'' example_client ''/api/assets''
          (Some (JObj [(''asset_name'', JStr ''www''), (''zone_id'', JNum False 337 [])]))]"
  using C6_asset_zone_id_verbatim [of empty_response "fixed_service 201 (Some asset_created)" example_client
          asset_plan "\<lparr>StatusCode = 201, Status = ''status'', Body = Inr (Some asset_created)\<rparr>"
          "Some asset_created" 337]
        asset_create_201 [of empty_response "fixed_service 201 (Some asset_created)" example_client
          asset_plan "\<lparr>StatusCode = 201, Status = ''status'', Body = Inr (Some asset_created)\<rparr>"
          "Some asset_created"]
  by (simp add: answers_fixed_service decode_asset_created empty_response_def asset_plan_def
      object_AssetResourceModel_def Marshal_int64_def ValueString_def)

subsection \<open>\<open>Update\<close>\<close>

lemma HasError_Append: "HasError (Append ds ns) = (HasError ds \<or> HasError ns)"
  by (induction ns arbitrary: ds) (auto simp: HasError_append split: diagnostic.splits dest: member_HasError)

lemma zone_update_persists:
  assumes "\<not> HasError (Diagnostics resp0)"
  shows "PanopZoneResource_Update (object_ZoneResourceModel data) resp0 =
           (resp0\<lparr>State := Some (object_ZoneResourceModel data)\<rparr>, [])"
  using assms by (simp add: PanopZoneResource_Update_def get_object_ZoneResourceModel Set_zone)

lemma get_zone_of_asset_object:
  "get_ZoneResourceModel (object_AssetResourceModel data) = ([mismatch_error], ZoneResourceModel_zero)"
proof -
  have "''token'' \<in> set ZoneResourceModel_tags"
    by (simp add: ZoneResourceModel_tags_def)
  moreover have "''token'' \<notin> set (map fst (object_AssetResourceModel data))"
    by (simp add: object_AssetResourceModel_def)
  ultimately have "struct_mismatch ZoneResourceModel_tags (object_AssetResourceModel data)"
    unfolding struct_mismatch_def by metis
  then show ?thesis by (simp add: get_ZoneResourceModel_def)
qed

lemma asset_update_error:
  "HasError (Diagnostics (fst (PanopAssetResource_Update (object_AssetResourceModel data) resp0)))
   \<and> State (fst (PanopAssetResource_Update (object_AssetResourceModel data) resp0)) = State resp0"
proof -
  have "HasError (Append (Diagnostics resp0) [mismatch_error])"
    unfolding HasError_Append by (simp add: mismatch_error_def)
  then show ?thesis
    by (simp add: PanopAssetResource_Update_def get_zone_of_asset_object del: Append.simps)
qed

text \<open>
  C4 (the code at a failing input). \<open>PanopAssetResource.Update\<close> on the plan of an asset
  whose name changes: reading the plan into the zone struct fails, an error is reported
  and the state keeps the prior record instead of the plan.
\<close>

theorem C4_asset_update_fails:
  "PanopAssetResource_Update (object_AssetResourceModel asset_renamed)
     \<lparr>Diagnostics = [], State = Some (object_AssetResourceModel asset_held)\<rparr> =
   (\<lparr>Diagnostics = [Diagnostic SeverityError ''Value Conversion Error'' ''mismatch between struct and object''],
     State = Some (object_AssetResourceModel asset_held)\<rparr>, [])"
  by (simp add: PanopAssetResource_Update_def get_zone_of_asset_object mismatch_error_def)

subsection \<open>\<open>Read\<close> answered with 200\<close>

lemma zone_scan_find:
  "zone_scan zones data =
     (case find (\<lambda>z. ZoneResponse_Read.Id z = ValueInt64 (ZoneResourceModel.Id data)) zones of
        None \<Rightarrow> data
      | Some zone \<Rightarrow> data\<lparr>ZoneResourceModel.ZoneName := Known (ZoneResponse_Read.ZoneName zone),
                           ZoneResourceModel.Token := Known (ZoneResponse_Read.Token zone),
                           ZoneResourceModel.ZoneType := Known (ZoneResponse_Read.ZoneType zone)\<rparr>)"
  by (induction zones) auto

lemma asset_scan_find:
  "asset_scan assets data =
     (case find (\<lambda>a. AssetResponse_Read.AssetId a = ValueInt64 (AssetResourceModel.Id data)) assets of
        None \<Rightarrow> data
      | Some asset \<Rightarrow> data\<lparr>AssetResourceModel.AssetName := Known (AssetResponse_Read.AssetName asset),
                            AssetResourceModel.ZoneId := Known (AssetResponse_Read.ZoneId asset)\<rparr>)"
  by (induction assets) auto

lemma zone_read_200:
  assumes "\<not> HasError (Diagnostics resp0)"
    and "answers net (api_request ''GET'' r ''/api/zones'' None) httpResp"
    and "StatusCode httpResp = 200"
    and "Body httpResp = Inr respBody"
  shows "PanopZoneResource_Read net r (object_ZoneResourceModel data) resp0 =
     (resp0\<lparr>State := Some (object_ZoneResourceModel
         (zone_scan (fst (Unmarshal respBody (decode_slice member_ZoneResponse_Read ZoneResponse_Read_zero) []))
            data))\<rparr>,
      [api_request ''GET'' r ''/api/zones'' None])"
  using assms
  by (simp add: PanopZoneResource_Read_def get_object_ZoneResourceModel NewRequest_def Header_Add_def
      answers_def api_request_def Set_zone Let_def)

lemma asset_read_200:
  assumes "\<not> HasError (Diagnostics resp0)"
    and "answers net (api_request ''GET'' r ''/api/assets'' None) httpResp"
    and "StatusCode httpResp = 200"
    and "Body httpResp = Inr respBody"
  shows "PanopAssetResource_Read net r (object_AssetResourceModel data) resp0 =
     (resp0\<lparr>State := Some (object_AssetResourceModel
         (asset_scan (fst (Unmarshal respBody (decode_slice member_AssetResponse_Read AssetResponse_Read_zero) []))
            data))\<rparr>,
      [api_request ''GET'' r ''/api/assets'' None])"
  using assms
  by (simp add: PanopAssetResource_Read_def get_object_AssetResourceModel NewRequest_def Header_Add_def
      answers_def api_request_def Set_asset Let_def)

lemma decode_zones_377:
  "fst (Unmarshal (Some zones_377) (decode_slice member_ZoneResponse_Read ZoneResponse_Read_zero) []) =
     [\<lparr>ZoneResponse_Read.Id = 3, ZoneResponse_Read.ZoneName = ''other.org'', ZoneResponse_Read.ZoneType = ''dns'',
       ZoneResponse_Read.Validated = True, ZoneResponse_Read.Token = ''t3'', ZoneResponse_Read.TenantId = 1\<rparr>,
      \<lparr>ZoneResponse_Read.Id = 7, ZoneResponse_Read.ZoneName = ''renamed.com'', ZoneResponse_Read.ZoneType = ''http'',
       ZoneResponse_Read.Validated = True, ZoneResponse_Read.Token = ''tok2'', ZoneResponse_Read.TenantId = 1\<rparr>,
      \<lparr>ZoneResponse_Read.Id = 7, ZoneResponse_Read.ZoneName = ''second.com'', ZoneResponse_Read.ZoneType = ''dns'',
       ZoneResponse_Read.Validated = False, ZoneResponse_Read.Token = ''t7'', ZoneResponse_Read.TenantId = 1\<rparr>]"
  by (simp add: Unmarshal_def decode_slice_def decode_struct_def zones_377_def member_ZoneResponse_Read_def
      matchField_def store_int64_def store_uint_def store_string_def store_bool_def ZoneResponse_Read_zero_def)

text \<open>
  C5. When a \<open>Read\<close> (zone or asset) is answered with 200, it adds no diagnostic and
  writes the held record back: unchanged when no decoded entry has the held id, and
  otherwise with \<open>zone_name\<close>, \<open>token\<close> and \<open>zone_type\<close> (for an asset \<open>asset_name\<close> and
  \<open>zone_id\<close>) taken from the first decoded entry that has the held id.
\<close>

theorem C5_read_refresh:
  assumes "\<not> HasError (Diagnostics resp0)"
    and "answers znet (api_request ''GET'' r ''/api/zones'' None) zresp"
    and "StatusCode zresp = 200"
    and "Body zresp = Inr zbody"
    and "answers anet (api_request ''GET'' r ''/api/assets'' None) aresp"
    and "StatusCode aresp = 200"
    and "Body aresp = Inr abody"
  shows "fst (PanopZoneResource_Read znet r (object_ZoneResourceModel zdata) resp0) =
       resp0\<lparr>State := Some (object_ZoneResourceModel
         (case find (\<lambda>z. ZoneResponse_Read.Id z = ValueInt64 (ZoneResourceModel.Id zdata))
                 (fst (Unmarshal zbody (decode_slice member_ZoneResponse_Read ZoneResponse_Read_zero) [])) of
            None \<Rightarrow> zdata
          | Some zone \<Rightarrow>
              \<lparr>ZoneResourceModel.ZoneName = Known (ZoneResponse_Read.ZoneName zone),
               ZoneResourceModel.Id = ZoneResourceModel.Id zdata,
               ZoneResourceModel.ZoneType = Known (ZoneResponse_Read.ZoneType zone),
               ZoneResourceModel.Token = Known (ZoneResponse_Read.Token zone)\<rparr>))\<rparr>
     \<and> fst (PanopAssetResource_Read anet r (object_AssetResourceModel adata) resp0) =
       resp0\<lparr>State := Some (object_AssetResourceModel
         (case find (\<lambda>a. AssetResponse_Read.AssetId a = ValueInt64 (AssetResourceModel.Id adata))
                 (fst (Unmarshal abody (decode_slice member_AssetResponse_Read AssetResponse_Read_zero) [])) of
            None \<Rightarrow> adata
          | Some asset \<Rightarrow>
              \<lparr>AssetResourceModel.AssetName = Known (AssetResponse_Read.AssetName asset),
               AssetResourceModel.Id = AssetResourceModel.Id adata,
               AssetResourceModel.ZoneId = Known (AssetResponse_Read.ZoneId asset)\<rparr>))\<rparr>"
  unfolding zone_read_200 [OF assms(1-4)] asset_read_200 [OF assms(1) assms(5-7)]
    zone_scan_find asset_scan_find
  by (simp add: object_ZoneResourceModel_def object_AssetResourceModel_def split: option.splits)

theorem C5_read_refresh_witness:
  "\<not> HasError (Diagnostics empty_response)
   \<and> answers (fixed_service 200 (Some zones_377)) (api_request ''GET'' example_client ''/api/zones'' None)
        \<lparr>StatusCode = 200, Status = ''status'', Body = Inr (Some zones_377)\<rparr>
   \<and> answers (fixed_service 200 (Some assets_112)) (api_request ''GET'' example_client ''/api/assets'' None)
        \<lparr>StatusCode = 200, Status = ''status'', Body = Inr (Some assets_112)\<rparr>
   \<and> fst (PanopZoneResource_Read (fixed_service 200 (Some zones_377)) example_client
            (object_ZoneResourceModel zone_held) empty_response) =
       \<lparr>Diagnostics = [],
        State = Some [(''zone_name'', StringV (Known ''renamed.com'')), (''id'', Int64V (Known 7)),
                      (''zone_type'', StringV (Known ''http'')), (''token'', StringV (Known ''tok2''))]\<rparr>
   \<and> fst (PanopAssetResource_Read (fixed_service 200 (Some assets_112)) example_client
            (object_AssetResourceModel asset_held) empty_response) =
       \<lparr>Diagnostics = [], State = Some (object_AssetResourceModel asset_held)\<rparr>"
  using C5_read_refresh [of empty_response "fixed_service 200 (Some zones_377)" example_client
          "\<lparr>StatusCode = 200, Status = ''status'', Body = Inr (Some zones_377)\<rparr>" "Some zones_377"
          "fixed_service 200 (Some assets_112)"
          "\<lparr>StatusCode = 200, Status = ''status'', Body = Inr (Some assets_112)\<rparr>" "Some assets_112"
          zone_held asset_held]
  by (simp add: answers_fixed_service decode_zones_377 decode_assets_112 empty_response_def
      zone_held_def asset_held_def ValueInt64_def object_ZoneResourceModel_def object_AssetResourceModel_def)

subsection \<open>What is sent\<close>

lemma zone_create_sent:
  "snd (PanopZoneResource_Create net r plan resp0) = [] \<or>
   snd (PanopZoneResource_Create net r plan resp0) = [zone_create_request r (snd (get_ZoneResourceModel plan))]"
proof (cases "get_ZoneResourceModel plan")
  case (Pair ds data)
  let ?req = "zone_create_request r data"
  show ?thesis
  proof (cases "NewRequestErr net (URL ?req)")
    case None
    show ?thesis
    proof (cases "Do net ?req")
      case (Inl err)
      with Pair None show ?thesis
        by (simp add: PanopZoneResource_Create_def NewRequest_def Header_Add_def zone_create_request_def
            api_request_def Let_def)
    next
      case (Inr httpResp)
      with Pair None show ?thesis
        by (cases "Body httpResp")
           (simp_all add: PanopZoneResource_Create_def NewRequest_def Header_Add_def zone_create_request_def
            api_request_def Let_def)
    qed
  next
    case (Some err)
    with Pair show ?thesis
      by (simp add: PanopZoneResource_Create_def NewRequest_def zone_create_request_def api_request_def Let_def)
  qed
qed

lemma asset_create_sent:
  "snd (PanopAssetResource_Create net r plan resp0) = [] \<or>
   snd (PanopAssetResource_Create net r plan resp0) = [asset_create_request r (snd (get_AssetResourceModel plan))]"
proof (cases "get_AssetResourceModel plan")
  case (Pair ds data)
  let ?req = "asset_create_request r data"
  show ?thesis
  proof (cases "NewRequestErr net (URL ?req)")
    case None
    show ?thesis
    proof (cases "Do net ?req")
      case (Inl err)
      with Pair None show ?thesis
        by (simp add: PanopAssetResource_Create_def NewRequest_def Header_Add_def asset_create_request_def
            api_request_def Let_def)
    next
      case (Inr httpResp)
      with Pair None show ?thesis
        by (cases "Body httpResp")
           (simp_all add: PanopAssetResource_Create_def NewRequest_def Header_Add_def asset_create_request_def
            api_request_def Let_def)
    qed
  next
    case (Some err)
    with Pair show ?thesis
      by (simp add: PanopAssetResource_Create_def NewRequest_def asset_create_request_def api_request_def Let_def)
  qed
qed

lemma body_keys_zone_create: "body_keys (zone_create_request r data) = [''zone_name'', ''tenant_id'']"
  by (simp add: body_keys_def zone_create_request_def api_request_def Marshal_ZoneInput_def)

lemma body_keys_asset_create: "body_keys (asset_create_request r data) = [''asset_name'', ''zone_id'']"
  by (simp add: body_keys_def asset_create_request_def api_request_def Marshal_AssetInput_def)

lemma zone_update_sent: "snd (PanopZoneResource_Update plan resp0) = []"
  by (cases "get_ZoneResourceModel plan") (simp add: PanopZoneResource_Update_def Let_def)

lemma asset_update_sent: "snd (PanopAssetResource_Update plan resp0) = []"
  by (cases "get_ZoneResourceModel plan") (simp add: PanopAssetResource_Update_def Let_def)

text \<open>
  C7. Whatever the plan, the response handed in and the remote service, every request
  that a \<open>Create\<close> sends carries a JSON object whose members are \<open>zone_name\<close> and
  \<open>tenant_id\<close> (zone) or \<open>asset_name\<close> and \<open>zone_id\<close> (asset), so never \<open>token\<close>, and
  the two \<open>Update\<close> operations send no request.
\<close>

theorem C7_no_token_in_payload:
  "list_all (\<lambda>req. body_keys req = [''zone_name'', ''tenant_id''] \<and> ''token'' \<notin> set (body_keys req))
     (snd (PanopZoneResource_Create net r plan resp0))
   \<and> list_all (\<lambda>req. body_keys req = [''asset_name'', ''zone_id''] \<and> ''token'' \<notin> set (body_keys req))
     (snd (PanopAssetResource_Create net r plan resp0))
   \<and> snd (PanopZoneResource_Update plan resp0) = []
   \<and> snd (PanopAssetResource_Update plan resp0) = []"
proof -
  have "list_all (\<lambda>req. body_keys req = [''zone_name'', ''tenant_id''] \<and> ''token'' \<notin> set (body_keys req))
     (snd (PanopZoneResource_Create net r plan resp0))"
    using zone_create_sent [of net r plan resp0] by (auto simp: body_keys_zone_create)
  moreover have "list_all (\<lambda>req. body_keys req = [''asset_name'', ''zone_id''] \<and> ''token'' \<notin> set (body_keys req))
     (snd (PanopAssetResource_Create net r plan resp0))"
    using asset_create_sent [of net r plan resp0] by (auto simp: body_keys_asset_create)
  ultimately show ?thesis
    by (simp add: zone_update_sent asset_update_sent)
qed

theorem C7_no_token_in_payload_witness:
  "snd (PanopZoneResource_Create (fixed_service 201 (Some zone_created_http)) example_client
          (object_ZoneResourceModel zone_held) empty_response) =
     [api_request ''POST'' example_client ''/api/zones''
        (Some (JObj [(''zone_name'', JStr ''example.com''), (''tenant_id'', JNum False 0 [])]))]
   \<and> list_all (\<lambda>req. body_keys req = [''zone_name'', ''tenant_id''] \<and> ''token'' \<notin> set (body_keys req))
     (snd (PanopZoneResource_Create (fixed_service 201 (Some zone_created_http)) example_client
             (object_ZoneResourceModel zone_held) empty_response))"
  using C7_no_token_in_payload [of "fixed_service 201 (Some zone_created_http)" example_client
          "object_ZoneResourceModel zone_held" empty_response]
        zone_create_201 [of empty_response "fixed_service 201 (Some zone_created_http)" example_client zone_held
          "\<lparr>StatusCode = 201, Status = ''status'', Body = Inr (Some zone_created_http)\<rparr>" "Some zone_created_http"]
  by (simp add: answers_fixed_service empty_response_def zone_held_def zone_create_request_def
      Marshal_ZoneInput_def Marshal_int64_def ValueString_def)

subsection \<open>\<open>ImportState\<close>\<close>

lemma digits_from_ge: "n \<le> digits_from n ds"
proof (induction ds arbitrary: n)
  case Nil
  show ?case by simp
next
  case (Cons c ds)
  have "n \<le> n * 10 + (of_char c - 48)" by simp
  also have "\<dots> \<le> digits_from (n * 10 + (of_char c - 48)) ds" by (rule Cons.IH)
  finally show ?case by simp
qed

lemma ParseUint_loop_digits:
  "list_all is_digit ds \<Longrightarrow> digits_from n ds < 2 ^ 64 \<Longrightarrow>
     ParseUint_loop (ds @ rest) n = ParseUint_loop rest (digits_from n ds)"
proof (induction ds arbitrary: n)
  case Nil
  show ?case by simp
next
  case (Cons c ds)
  let ?n1 = "n * 10 + (of_char c - 48)"
  from Cons.prems have dig: "is_digit c" and rest: "list_all is_digit ds"
    and bound: "digits_from ?n1 ds < 2 ^ 64" by simp_all
  have "?n1 \<le> digits_from ?n1 ds" by (rule digits_from_ge)
  with bound have n1: "?n1 < 2 ^ 64" by linarith
  then have n1': "\<not> ?n1 > 2 ^ 64 - 1" by simp
  from n1 have "n * 10 < 18446744073709551616" by simp
  then have cut: "\<not> n \<ge> (2 ^ 64 - 1) div 10 + 1" by simp
  have "ParseUint_loop ((c # ds) @ rest) n = ParseUint_loop (ds @ rest) ?n1"
    using dig cut n1' by (simp add: is_digit_def Let_def)
  also have "\<dots> = ParseUint_loop rest (digits_from ?n1 ds)"
    using rest bound by (rule Cons.IH)
  finally show ?case by simp
qed

lemma ParseInt_digits:
  assumes "list_all is_digit ds" and "ds \<noteq> []" and "digits_value ds < 2 ^ 63"
  shows "ParseInt ds = (word_of_nat (digits_value ds), None)"
proof -
  from assms(2) obtain c cs where ds: "ds = c # cs" by (cases ds) auto
  with assms(1) have "is_digit c" by simp
  then have nosign: "c \<noteq> CHR ''+''" "c \<noteq> CHR ''-''" by (auto simp: is_digit_def)
  have "digits_from 0 ds < 2 ^ 64" using assms(3) by (simp add: digits_value_def)
  with assms(1) have "ParseUint_loop (ds @ []) 0 = ParseUint_loop [] (digits_from 0 ds)"
    by (rule ParseUint_loop_digits)
  then have "ParseUint ds = (digits_value ds, None)"
    using assms(2) by (simp add: ParseUint_def digits_value_def)
  then show ?thesis
    using nosign assms(3) by (simp add: ParseInt_def ds)
qed

lemma ParseInt_not_digit:
  assumes "list_all is_digit ds" and "digits_value ds < 2 ^ 64" and "\<not> is_digit c"
    and "ds \<noteq> [] \<or> (c \<noteq> CHR ''+'' \<and> c \<noteq> CHR ''-'')"
  shows "ParseInt (ds @ c # rest) = (0, Some ErrSyntax)"
proof -
  have "digits_from 0 ds < 2 ^ 64" using assms(2) by (simp add: digits_value_def)
  with assms(1) have "ParseUint_loop (ds @ c # rest) 0 = ParseUint_loop (c # rest) (digits_from 0 ds)"
    by (rule ParseUint_loop_digits)
  also have "\<dots> = (0, Some ErrSyntax)" using assms(3) by (auto simp: is_digit_def)
  finally have U: "ParseUint (ds @ c # rest) = (0, Some ErrSyntax)" by (simp add: ParseUint_def)
  show ?thesis
  proof (cases ds)
    case Nil
    with assms(4) have "c \<noteq> CHR ''+''" "c \<noteq> CHR ''-''" by simp_all
    with U Nil show ?thesis by (simp add: ParseInt_def)
  next
    case (Cons d ds')
    with assms(1) have "is_digit d" by simp
    then have "d \<noteq> CHR ''+''" "d \<noteq> CHR ''-''" by (auto simp: is_digit_def)
    with U Cons show ?thesis by (simp add: ParseInt_def)
  qed
qed

lemma ParseInt_337: "ParseInt ''337'' = (337, None)"
  by (simp add: ParseInt_def ParseUint_def Let_def)

lemma ParseInt_overflow_x: "ParseInt ''99999999999999999999x'' = (9223372036854775807, Some ErrRange)"
  by (simp add: ParseInt_def ParseUint_def Let_def)

lemma ParseInt_abc: "ParseInt ''abc'' = (0, Some ErrSyntax)"
  by (simp add: ParseInt_def ParseUint_def Let_def)

text \<open>
  C8 (as stated). The claim has every non-numeric string yield a zero identifier. The
  string of twenty nines followed by \<open>x\<close> is not numeric, and importing it seeds the
  identifier with the largest \<open>int64\<close>: the digits overflow before the \<open>x\<close> is read.
\<close>

theorem C8_nonnumeric_counterexample:
  "\<not> list_all is_digit ''99999999999999999999x''
   \<and> PanopZoneResource_ImportState ''99999999999999999999x'' empty_response =
       (\<lparr>Diagnostics = [],
         State = Some [(''zone_name'', StringV Null), (''id'', Int64V (Known 9223372036854775807)),
                       (''zone_type'', StringV Null), (''token'', StringV Null)]\<rparr>, [])"
  by (simp add: PanopZoneResource_ImportState_def ParseInt_overflow_x SetAttribute_id_def
      empty_response_def object_ZoneResourceModel_def ZoneResourceModel_zero_def is_digit_def)

lemma ParseUint_loop_overflow:
  "list_all is_digit ds \<Longrightarrow> n < 2 ^ 64 \<Longrightarrow> 2 ^ 64 \<le> digits_from n ds \<Longrightarrow>
     ParseUint_loop (ds @ rest) n = (2 ^ 64 - 1, Some ErrRange)"
proof (induction ds arbitrary: n)
  case Nil
  then show ?case by simp
next
  case (Cons c ds)
  let ?n1 = "n * 10 + (of_char c - 48)"
  from Cons.prems have dig: "is_digit c" and rest: "list_all is_digit ds"
    and over: "2 ^ 64 \<le> digits_from ?n1 ds" by simp_all
  show ?case
  proof (cases "n \<ge> (2 ^ 64 - 1) div 10 + 1")
    case True
    then show ?thesis using dig by (simp add: is_digit_def)
  next
    case False
    note cut = this
    show ?thesis
    proof (cases "?n1 > 2 ^ 64 - 1")
      case True
      then show ?thesis using dig cut by (simp add: is_digit_def Let_def)
    next
      case False
      then have small: "?n1 < 2 ^ 64" by simp
      have "ParseUint_loop ((c # ds) @ rest) n = ParseUint_loop (ds @ rest) ?n1"
        using dig cut False by (simp add: is_digit_def Let_def)
      also have "\<dots> = (2 ^ 64 - 1, Some ErrRange)"
        using rest small over by (rule Cons.IH)
      finally show ?thesis .
    qed
  qed
qed

lemma ParseUint_digits:
  assumes "list_all is_digit ds" and "ds \<noteq> []" and "digits_value ds < 2 ^ 64"
  shows "ParseUint ds = (digits_value ds, None)"
proof -
  have "digits_from 0 ds < 2 ^ 64" using assms(3) by (simp add: digits_value_def)
  with assms(1) have "ParseUint_loop (ds @ []) 0 = ParseUint_loop [] (digits_from 0 ds)"
    by (rule ParseUint_loop_digits)
  then show ?thesis using assms(2) by (simp add: ParseUint_def digits_value_def)
qed

lemma ParseUint_not_digit:
  assumes "list_all is_digit ds" and "digits_value ds < 2 ^ 64" and "\<not> is_digit c"
  shows "ParseUint (ds @ c # rest) = (0, Some ErrSyntax)"
proof -
  have "digits_from 0 ds < 2 ^ 64" using assms(2) by (simp add: digits_value_def)
  with assms(1) have "ParseUint_loop (ds @ c # rest) 0 = ParseUint_loop (c # rest) (digits_from 0 ds)"
    by (rule ParseUint_loop_digits)
  also have "\<dots> = (0, Some ErrSyntax)" using assms(3) by (auto simp: is_digit_def)
  finally show ?thesis by (simp add: ParseUint_def)
qed

lemma ParseUint_overflow:
  assumes "list_all is_digit ds" and "2 ^ 64 \<le> digits_value ds"
  shows "ParseUint (ds @ rest) = (2 ^ 64 - 1, Some ErrRange)"
proof -
  from assms(2) have ne: "ds \<noteq> []" by (auto simp: digits_value_def)
  have "ParseUint_loop (ds @ rest) 0 = (2 ^ 64 - 1, Some ErrRange)"
    using assms by (intro ParseUint_loop_overflow) (simp_all add: digits_value_def)
  then show ?thesis using ne by (simp add: ParseUint_def)
qed

lemma ParseInt_Nil: "ParseInt [] = (0, Some ErrSyntax)"
  by (simp add: ParseInt_def)

lemma ParseInt_sign_only:
  "ParseInt ''+'' = (0, Some ErrSyntax)" "ParseInt ''-'' = (0, Some ErrSyntax)"
  by (simp_all add: ParseInt_def ParseUint_def)

lemma ParseInt_plus:
  "ParseInt (CHR ''+'' # s) =
     (case ParseUint s of (un, err) \<Rightarrow>
        if err = Some ErrSyntax then (0, err)
        else if un \<ge> 2 ^ 63 then (word_of_nat (2 ^ 63 - 1), Some ErrRange)
        else (word_of_nat un, None))"
  by (simp add: ParseInt_def split: prod.splits)

lemma ParseInt_minus:
  "ParseInt (CHR ''-'' # s) =
     (case ParseUint s of (un, err) \<Rightarrow>
        if err = Some ErrSyntax then (0, err)
        else if un > 2 ^ 63 then (- word_of_nat (2 ^ 63), Some ErrRange)
        else (- word_of_nat un, None))"
  by (simp add: ParseInt_def split: prod.splits)

lemma ParseInt_unsigned:
  assumes "s = c # cs" and "c \<noteq> CHR ''+''" and "c \<noteq> CHR ''-''"
  shows "ParseInt s =
     (case ParseUint s of (un, err) \<Rightarrow>
        if err = Some ErrSyntax then (0, err)
        else if un \<ge> 2 ^ 63 then (word_of_nat (2 ^ 63 - 1), Some ErrRange)
        else (word_of_nat un, None))"
  using assms by (simp add: ParseInt_def split: prod.splits)

lemma digits_unsigned:
  assumes "list_all is_digit ds" and "ds \<noteq> []"
  shows "\<exists>c cs. ds = c # cs \<and> c \<noteq> CHR ''+'' \<and> c \<noteq> CHR ''-''"
proof -
  from assms(2) obtain c cs where ds: "ds = c # cs" by (cases ds) auto
  with assms(1) have "is_digit c" by simp
  then have "c \<noteq> CHR ''+''" "c \<noteq> CHR ''-''" by (auto simp: is_digit_def)
  with ds show ?thesis by blast
qed

lemma ParseInt_in_range:
  assumes "list_all is_digit ds" and "ds \<noteq> []"
  shows "digits_value ds < 2 ^ 63 \<Longrightarrow> fst (ParseInt ds) = word_of_nat (digits_value ds)"
    and "digits_value ds < 2 ^ 63 \<Longrightarrow> fst (ParseInt (CHR ''+'' # ds)) = word_of_nat (digits_value ds)"
    and "digits_value ds \<le> 2 ^ 63 \<Longrightarrow> fst (ParseInt (CHR ''-'' # ds)) = - word_of_nat (digits_value ds)"
proof -
  from digits_unsigned [OF assms] obtain c cs
    where ds: "ds = c # cs" "c \<noteq> CHR ''+''" "c \<noteq> CHR ''-''" by blast
  show "fst (ParseInt ds) = word_of_nat (digits_value ds)" if "digits_value ds < 2 ^ 63"
    using that ParseUint_digits [OF assms] by (simp add: ParseInt_unsigned [OF ds])
  show "fst (ParseInt (CHR ''+'' # ds)) = word_of_nat (digits_value ds)" if "digits_value ds < 2 ^ 63"
    using that ParseUint_digits [OF assms] by (simp add: ParseInt_plus)
  show "fst (ParseInt (CHR ''-'' # ds)) = - word_of_nat (digits_value ds)" if "digits_value ds \<le> 2 ^ 63"
    using that ParseUint_digits [OF assms] by (simp add: ParseInt_minus)
qed

lemma ParseInt_syntax:
  assumes "list_all is_digit ds" and "digits_value ds < 2 ^ 64" and "\<not> is_digit c"
  shows "ds \<noteq> [] \<or> (c \<noteq> CHR ''+'' \<and> c \<noteq> CHR ''-'') \<Longrightarrow> fst (ParseInt (ds @ c # rest)) = 0"
    and "fst (ParseInt (CHR ''+'' # ds @ c # rest)) = 0"
    and "fst (ParseInt (CHR ''-'' # ds @ c # rest)) = 0"
proof -
  note U = ParseUint_not_digit [OF assms, of rest]
  show "fst (ParseInt (ds @ c # rest)) = 0" if "ds \<noteq> [] \<or> (c \<noteq> CHR ''+'' \<and> c \<noteq> CHR ''-'')"
    using ParseInt_not_digit [OF assms that, of rest] by simp
  show "fst (ParseInt (CHR ''+'' # ds @ c # rest)) = 0"
    using U by (simp add: ParseInt_plus)
  show "fst (ParseInt (CHR ''-'' # ds @ c # rest)) = 0"
    using U by (simp add: ParseInt_minus)
qed

lemma ParseUint_large:
  assumes "list_all is_digit ds" and "2 ^ 63 \<le> digits_value ds"
  shows "\<exists>un err. ParseUint ds = (un, err) \<and> err \<noteq> Some ErrSyntax \<and> 2 ^ 63 \<le> un
           \<and> (2 ^ 63 < digits_value ds \<longrightarrow> 2 ^ 63 < un)"
proof (cases "digits_value ds < 2 ^ 64")
  case True
  from assms(2) have "ds \<noteq> []" by (auto simp: digits_value_def)
  from ParseUint_digits [OF assms(1) this True] assms(2) show ?thesis by simp
next
  case False
  then have "2 ^ 64 \<le> digits_value ds" by simp
  from ParseUint_overflow [OF assms(1) this, of "[]"] show ?thesis by simp
qed

lemma ParseInt_out_of_range:
  assumes "list_all is_digit ds"
  shows "2 ^ 63 \<le> digits_value ds \<Longrightarrow> fst (ParseInt ds) = word_of_nat (2 ^ 63 - 1)"
    and "2 ^ 63 \<le> digits_value ds \<Longrightarrow> fst (ParseInt (CHR ''+'' # ds)) = word_of_nat (2 ^ 63 - 1)"
    and "2 ^ 63 < digits_value ds \<Longrightarrow> fst (ParseInt (CHR ''-'' # ds)) = - word_of_nat (2 ^ 63)"
proof -
  show "fst (ParseInt ds) = word_of_nat (2 ^ 63 - 1)" if large: "2 ^ 63 \<le> digits_value ds"
  proof -
    from large have "ds \<noteq> []" by (auto simp: digits_value_def)
    from digits_unsigned [OF assms this] obtain c cs
      where ds: "ds = c # cs" "c \<noteq> CHR ''+''" "c \<noteq> CHR ''-''" by blast
    from ParseUint_large [OF assms large] show ?thesis
      by (auto simp: ParseInt_unsigned [OF ds])
  qed
  show "fst (ParseInt (CHR ''+'' # ds)) = word_of_nat (2 ^ 63 - 1)" if large: "2 ^ 63 \<le> digits_value ds"
    using ParseUint_large [OF assms large] by (auto simp: ParseInt_plus)
  show "fst (ParseInt (CHR ''-'' # ds)) = - word_of_nat (2 ^ 63)" if large: "2 ^ 63 < digits_value ds"
  proof -
    from large have "2 ^ 63 \<le> digits_value ds" by simp
    from ParseUint_large [OF assms this] large show ?thesis
      by (auto simp: ParseInt_minus)
  qed
qed

lemma ParseInt_overflow:
  assumes "list_all is_digit ds" and "2 ^ 64 \<le> digits_value ds"
  shows "fst (ParseInt (ds @ rest)) = word_of_nat (2 ^ 63 - 1)"
    and "fst (ParseInt (CHR ''+'' # ds @ rest)) = word_of_nat (2 ^ 63 - 1)"
    and "fst (ParseInt (CHR ''-'' # ds @ rest)) = - word_of_nat (2 ^ 63)"
proof -
  note U = ParseUint_overflow [OF assms, of rest]
  from assms(2) have "ds \<noteq> []" by (auto simp: digits_value_def)
  from digits_unsigned [OF assms(1) this] obtain c cs
    where ds: "ds @ rest = c # (cs @ rest)" "c \<noteq> CHR ''+''" "c \<noteq> CHR ''-''" by auto
  show "fst (ParseInt (ds @ rest)) = word_of_nat (2 ^ 63 - 1)"
    using U by (simp add: ParseInt_unsigned [OF ds])
  show "fst (ParseInt (CHR ''+'' # ds @ rest)) = word_of_nat (2 ^ 63 - 1)"
    using U by (simp add: ParseInt_plus)
  show "fst (ParseInt (CHR ''-'' # ds @ rest)) = - word_of_nat (2 ^ 63)"
    using U by (simp add: ParseInt_minus)
qed

text \<open>
  C8 (amended). \<open>ImportState\<close> (zone or asset) sends nothing, reports nothing, and seeds
  \<open>id\<close> of the null state with the value that \<open>strconv.ParseInt\<close> returns for the
  identifier, whatever its error. That value is:
  \<^item> 0 for the empty string and for a lone sign;
  \<^item> the number written, for a non-empty string of decimal digits, with or without one
    leading sign, whose value is in the range of \<open>int64\<close> (\<open>337\<close> for \<open>"337"\<close>);
  \<^item> 0 when, after at most one leading sign, a byte that is not a digit follows digits
    of a value below \<open>2^64\<close> (or no digit);
  \<^item> the nearest bound of \<open>int64\<close> when the digits are out of its range, and also when
    the leading digits reach \<open>2^64\<close>, whatever follows them.
\<close>

theorem C8_import_state:
  "(State resp = None \<longrightarrow>
      PanopZoneResource_ImportState s resp =
        (resp\<lparr>State := Some [(''zone_name'', StringV Null), (''id'', Int64V (Known (fst (ParseInt s)))),
                              (''zone_type'', StringV Null), (''token'', StringV Null)]\<rparr>, [])
      \<and> PanopAssetResource_ImportState s resp =
        (resp\<lparr>State := Some [(''asset_name'', StringV Null), (''id'', Int64V (Known (fst (ParseInt s)))),
                              (''zone_id'', Int64V Null)]\<rparr>, []))
   \<and> fst (ParseInt []) = 0 \<and> fst (ParseInt ''+'') = 0 \<and> fst (ParseInt ''-'') = 0
   \<and> (list_all is_digit ds \<and> ds \<noteq> [] \<and> digits_value ds < 2 ^ 63 \<longrightarrow>
        fst (ParseInt ds) = word_of_nat (digits_value ds)
        \<and> fst (ParseInt (CHR ''+'' # ds)) = word_of_nat (digits_value ds))
   \<and> (list_all is_digit ds \<and> ds \<noteq> [] \<and> digits_value ds \<le> 2 ^ 63 \<longrightarrow>
        fst (ParseInt (CHR ''-'' # ds)) = - word_of_nat (digits_value ds))
   \<and> (list_all is_digit ds \<and> digits_value ds < 2 ^ 64 \<and> \<not> is_digit c
        \<and> (ds \<noteq> [] \<or> (c \<noteq> CHR ''+'' \<and> c \<noteq> CHR ''-'')) \<longrightarrow>
        fst (ParseInt (ds @ c # rest)) = 0)
   \<and> (list_all is_digit ds \<and> digits_value ds < 2 ^ 64 \<and> \<not> is_digit c \<longrightarrow>
        fst (ParseInt (CHR ''+'' # ds @ c # rest)) = 0
        \<and> fst (ParseInt (CHR ''-'' # ds @ c # rest)) = 0)
   \<and> (list_all is_digit ds \<and> 2 ^ 63 \<le> digits_value ds \<longrightarrow>
        fst (ParseInt ds) = word_of_nat (2 ^ 63 - 1)
        \<and> fst (ParseInt (CHR ''+'' # ds)) = word_of_nat (2 ^ 63 - 1))
   \<and> (list_all is_digit ds \<and> 2 ^ 63 < digits_value ds \<longrightarrow>
        fst (ParseInt (CHR ''-'' # ds)) = - word_of_nat (2 ^ 63))
   \<and> (list_all is_digit ds \<and> 2 ^ 64 \<le> digits_value ds \<longrightarrow>
        fst (ParseInt (ds @ rest)) = word_of_nat (2 ^ 63 - 1)
        \<and> fst (ParseInt (CHR ''+'' # ds @ rest)) = word_of_nat (2 ^ 63 - 1)
        \<and> fst (ParseInt (CHR ''-'' # ds @ rest)) = - word_of_nat (2 ^ 63))"
proof -
  have imp: "State resp = None \<longrightarrow>
      PanopZoneResource_ImportState s resp =
        (resp\<lparr>State := Some [(''zone_name'', StringV Null), (''id'', Int64V (Known (fst (ParseInt s)))),
                              (''zone_type'', StringV Null), (''token'', StringV Null)]\<rparr>, [])
      \<and> PanopAssetResource_ImportState s resp =
        (resp\<lparr>State := Some [(''asset_name'', StringV Null), (''id'', Int64V (Known (fst (ParseInt s)))),
                              (''zone_id'', Int64V Null)]\<rparr>, [])"
    by (simp add: PanopZoneResource_ImportState_def PanopAssetResource_ImportState_def SetAttribute_id_def
        object_ZoneResourceModel_def ZoneResourceModel_zero_def
        object_AssetResourceModel_def AssetResourceModel_zero_def)
  have triv: "fst (ParseInt []) = 0 \<and> fst (ParseInt ''+'') = 0 \<and> fst (ParseInt ''-'') = 0"
    by (simp add: ParseInt_Nil ParseInt_sign_only)
  have rng: "list_all is_digit ds \<and> ds \<noteq> [] \<and> digits_value ds < 2 ^ 63 \<longrightarrow>
        fst (ParseInt ds) = word_of_nat (digits_value ds)
        \<and> fst (ParseInt (CHR ''+'' # ds)) = word_of_nat (digits_value ds)"
    using ParseInt_in_range(1,2) [of ds] by blast
  have neg: "list_all is_digit ds \<and> ds \<noteq> [] \<and> digits_value ds \<le> 2 ^ 63 \<longrightarrow>
        fst (ParseInt (CHR ''-'' # ds)) = - word_of_nat (digits_value ds)"
    using ParseInt_in_range(3) [of ds] by blast
  have syn: "list_all is_digit ds \<and> digits_value ds < 2 ^ 64 \<and> \<not> is_digit c
        \<and> (ds \<noteq> [] \<or> (c \<noteq> CHR ''+'' \<and> c \<noteq> CHR ''-'')) \<longrightarrow>
        fst (ParseInt (ds @ c # rest)) = 0"
    using ParseInt_syntax(1) [of ds c rest] by blast
  have sgn: "list_all is_digit ds \<and> digits_value ds < 2 ^ 64 \<and> \<not> is_digit c \<longrightarrow>
        fst (ParseInt (CHR ''+'' # ds @ c # rest)) = 0
        \<and> fst (ParseInt (CHR ''-'' # ds @ c # rest)) = 0"
    using ParseInt_syntax(2,3) [of ds c rest] by blast
  have big: "list_all is_digit ds \<and> 2 ^ 63 \<le> digits_value ds \<longrightarrow>
        fst (ParseInt ds) = word_of_nat (2 ^ 63 - 1)
        \<and> fst (ParseInt (CHR ''+'' # ds)) = word_of_nat (2 ^ 63 - 1)"
    using ParseInt_out_of_range(1,2) [of ds] by blast
  have low: "list_all is_digit ds \<and> 2 ^ 63 < digits_value ds \<longrightarrow>
        fst (ParseInt (CHR ''-'' # ds)) = - word_of_nat (2 ^ 63)"
    using ParseInt_out_of_range(3) [of ds] by blast
  have ovf: "list_all is_digit ds \<and> 2 ^ 64 \<le> digits_value ds \<longrightarrow>
        fst (ParseInt (ds @ rest)) = word_of_nat (2 ^ 63 - 1)
        \<and> fst (ParseInt (CHR ''+'' # ds @ rest)) = word_of_nat (2 ^ 63 - 1)
        \<and> fst (ParseInt (CHR ''-'' # ds @ rest)) = - word_of_nat (2 ^ 63)"
    using ParseInt_overflow [of ds rest] by blast
  from imp triv rng neg syn sgn big low ovf show ?thesis by blast
qed

theorem C8_import_state_witness:
  "State empty_response = None
   \<and> PanopZoneResource_ImportState ''337'' empty_response =
       (\<lparr>Diagnostics = [],
         State = Some [(''zone_name'', StringV Null), (''id'', Int64V (Known 337)),
                       (''zone_type'', StringV Null), (''token'', StringV Null)]\<rparr>, [])
   \<and> PanopAssetResource_ImportState ''337'' empty_response =
       (\<lparr>Diagnostics = [],
         State = Some [(''asset_name'', StringV Null), (''id'', Int64V (Known 337)),
                       (''zone_id'', Int64V Null)]\<rparr>, [])
   \<and> list_all is_digit ''337'' \<and> digits_value ''337'' = 337
   \<and> fst (ParseInt ''337'') = 337 \<and> fst (ParseInt ''+337'') = 337 \<and> fst (ParseInt ''-337'') = - 337
   \<and> \<not> is_digit CHR ''x'' \<and> \<not> is_digit CHR ''a''
   \<and> fst (ParseInt ''337x'') = 0 \<and> fst (ParseInt ''+337x'') = 0 \<and> fst (ParseInt ''-337x'') = 0
   \<and> fst (ParseInt ''abc'') = 0 \<and> fst (ParseInt ''+abc'') = 0 \<and> fst (ParseInt ''-abc'') = 0
   \<and> fst (ParseInt []) = 0 \<and> fst (ParseInt ''-'') = 0
   \<and> list_all is_digit ''99999999999999999999''
   \<and> (2::nat) ^ 64 \<le> digits_value ''99999999999999999999''
   \<and> fst (ParseInt ''99999999999999999999'') = 9223372036854775807
   \<and> sint (fst (ParseInt ''-99999999999999999999y'')) = - 9223372036854775808"
  using C8_import_state [where resp = empty_response and s = "''337''" and ds = "''337''"
          and c = "CHR ''x''" and rest = "[]"]
        C8_import_state [where resp = empty_response and s = "''abc''" and ds = "[]"
          and c = "CHR ''a''" and rest = "''bc''"]
        C8_import_state [where resp = empty_response and s = "[]" and ds = "''99999999999999999999''"
          and c = "CHR ''y''" and rest = "''y''"]
  by (simp add: empty_response_def is_digit_def digits_value_def)

subsection \<open>The name stored by the asset \<open>Create\<close>\<close>

lemma Unmarshal_None: "Unmarshal None dec target = (target, True)"
  by (simp add: Unmarshal_def)

lemma Unmarshal_not_object:
  "\<not> is_object j \<Longrightarrow> fst (Unmarshal (Some j) (decode_struct f) target) = target"
  by (cases j) (simp_all add: Unmarshal_def decode_struct_def is_object_def)

lemma AssetResponse_Create_zero_fields:
  "AssetResponse_Create.AssetName AssetResponse_Create_zero = []"
  "AssetResponse_Create.AssetId AssetResponse_Create_zero = 0"
  by (simp_all add: AssetResponse_Create_zero_def)

text \<open>
  C10 (as stated). The claim has the stored \<open>asset_name\<close> empty whenever the response
  body fails to decode. For the body whose \<open>asset_id\<close> is a string, \<open>json.Unmarshal\<close>
  returns an error, and the stored \<open>asset_name\<close> is the \<open>srv\<close> of the body.
\<close>

theorem C10_decode_error_counterexample:
  "snd (Unmarshal (Some asset_created_bad_id) (decode_struct member_AssetResponse_Create)
          AssetResponse_Create_zero)
   \<and> fst (PanopAssetResource_Create (fixed_service 201 (Some asset_created_bad_id)) example_client
            (object_AssetResourceModel asset_plan) empty_response) =
       \<lparr>Diagnostics = [],
        State = Some [(''asset_name'', StringV (Known ''srv'')), (''id'', Int64V (Known 0)),
                      (''zone_id'', Int64V (Known 337))]\<rparr>"
  using asset_create_201 [of empty_response "fixed_service 201 (Some asset_created_bad_id)" example_client
          asset_plan "\<lparr>StatusCode = 201, Status = ''status'', Body = Inr (Some asset_created_bad_id)\<rparr>"
          "Some asset_created_bad_id"]
  by (simp add: answers_fixed_service decode_asset_created_bad_id empty_response_def asset_plan_def
      object_AssetResourceModel_def)

text \<open>
  C10 (amended). When an asset \<open>Create\<close> is answered with 201, the stored \<open>asset_name\<close> is
  the \<open>asset_name\<close> that \<open>json.Unmarshal\<close> left in the response struct, not the planned
  one; it is the empty string when the body is not valid JSON or is a JSON value other
  than an object.
\<close>

theorem C10_asset_create_name:
  assumes "\<not> HasError (Diagnostics resp0)"
    and "answers net (asset_create_request r data) httpResp"
    and "StatusCode httpResp = 201"
    and "Body httpResp = Inr respBody"
  shows "State (fst (PanopAssetResource_Create net r (object_AssetResourceModel data) resp0)) =
       (let zone = fst (Unmarshal respBody (decode_struct member_AssetResponse_Create) AssetResponse_Create_zero)
        in Some [(''asset_name'', StringV (Known (AssetResponse_Create.AssetName zone))),
                 (''id'', Int64V (Known (AssetResponse_Create.AssetId zone))),
                 (''zone_id'', Int64V (AssetResourceModel.ZoneId data))])
     \<and> (respBody = None \<or> (\<exists>j. respBody = Some j \<and> \<not> is_object j) \<longrightarrow>
          AssetResponse_Create.AssetName
            (fst (Unmarshal respBody (decode_struct member_AssetResponse_Create) AssetResponse_Create_zero)) = [])"
proof -
  have "respBody = None \<or> (\<exists>j. respBody = Some j \<and> \<not> is_object j) \<longrightarrow>
          AssetResponse_Create.AssetName
            (fst (Unmarshal respBody (decode_struct member_AssetResponse_Create) AssetResponse_Create_zero)) = []"
    by (auto simp: Unmarshal_None Unmarshal_not_object AssetResponse_Create_zero_def)
  then show ?thesis
    unfolding asset_create_201 [OF assms]
    by (simp add: Let_def object_AssetResourceModel_def)
qed

theorem C10_asset_create_name_witness:
  "\<not> HasError (Diagnostics empty_response)
   \<and> answers (fixed_service 201 (Some asset_created)) (asset_create_request example_client asset_plan)
        \<lparr>StatusCode = 201, Status = ''status'', Body = Inr (Some asset_created)\<rparr>
   \<and> AssetResourceModel.AssetName asset_plan = Known ''www''
   \<and> State (fst (PanopAssetResource_Create (fixed_service 201 (Some asset_created)) example_client
                   (object_AssetResourceModel asset_plan) empty_response)) =
       Some [(''asset_name'', StringV (Known ''srv'')), (''id'', Int64V (Known 5)),
             (''zone_id'', Int64V (Known 337))]
   \<and> answers (fixed_service 201 None) (asset_create_request example_client asset_plan)
        \<lparr>StatusCode = 201, Status = ''status'', Body = Inr None\<rparr>
   \<and> State (fst (PanopAssetResource_Create (fixed_service 201 None) example_client
                   (object_AssetResourceModel asset_plan) empty_response)) =
       Some [(''asset_name'', StringV (Known [])), (''id'', Int64V (Known 0)),
             (''zone_id'', Int64V (Known 337))]"
  using C10_asset_create_name [of empty_response "fixed_service 201 (Some asset_created)" example_client
          asset_plan "\<lparr>StatusCode = 201, Status = ''status'', Body = Inr (Some asset_created)\<rparr>"
          "Some asset_created"]
        C10_asset_create_name [of empty_response "fixed_service 201 None" example_client
          asset_plan "\<lparr>StatusCode = 201, Status = ''status'', Body = Inr None\<rparr>" None]
  by (simp add: answers_fixed_service decode_asset_created empty_response_def asset_plan_def
      Unmarshal_None AssetResponse_Create_zero_fields Let_def)

subsection \<open>Bodies that do not decode\<close>


























end
